theory Spec2Isabelle
  imports Complex_Main
begin

section \<open>Geometry kernel\<close>

text \<open>
  Numbers: the program computes with numpy and torch floating-point values. They are
  modelled by the real numbers, so every arithmetic operation below is exact; rounding,
  overflow and the infinities are outside the model. A point \<open>np.array([x, y])\<close> is a
  pair, a segment (two stacked points) is a pair of points.
\<close>

type_synonym point = "real \<times> real"
type_synonym line = "point \<times> point"

text \<open>\<open>distance(pos1, pos2)\<close>: \<open>delta = (pos1-pos2)**2; np.sqrt(delta[0]+delta[1])\<close>.\<close>

definition distance :: "point \<Rightarrow> point \<Rightarrow> real" where
  "distance pos1 pos2 = sqrt ((fst pos1 - fst pos2)\<^sup>2 + (snd pos1 - snd pos2)\<^sup>2)"

text \<open>
  \<open>cal_crosspoint(line1, line2)\<close>: the intersection of the two infinite lines in slope
  form, with the branches of the source in the source's order.
\<close>

fun cal_crosspoint :: "line \<Rightarrow> line \<Rightarrow> bool \<times> point" where
  "cal_crosspoint ((x1, y1), (x2, y2)) ((x3, y3), (x4, y4)) =
     (if x1 = x2 \<and> x3 = x4 then (False, (0, 0))
      else if x1 = x2 then (True, (x1, (y4 - y3) / (x4 - x3) * (x1 - x3) + y3))
      else if x3 = x4 then (True, (x3, (y2 - y1) / (x2 - x1) * (x3 - x1) + y1))
      else
        (let a1 = (y2 - y1) / (x2 - x1);
             a3 = (y4 - y3) / (x4 - x3)
         in if a1 = a3 then (False, (0, 0))
            else
              (let x = (a1 * x1 - y1 - a3 * x3 + y3) / (a1 - a3)
               in (True, (x, (y2 - y1) / (x2 - x1) * (x - x1) + y1)))))"

text \<open>The absolute tolerance \<open>1e-5\<close> of \<open>is_online\<close>.\<close>

definition tol :: real where
  "tol = 1 / 100000"

text \<open>
  \<open>is_online(line, pos)\<close>: an endpoint within the tolerance in both coordinates; otherwise
  the cross product test, then the componentwise comparison of \<open>np.sign\<close>.
\<close>

fun is_online :: "line \<Rightarrow> point \<Rightarrow> bool" where
  "is_online (pos1, pos2) pos =
     (if (\<bar>fst pos1 - fst pos\<bar> \<le> tol \<and> \<bar>snd pos1 - snd pos\<bar> \<le> tol)
         \<or> (\<bar>fst pos2 - fst pos\<bar> \<le> tol \<and> \<bar>snd pos2 - snd pos\<bar> \<le> tol) then True
      else if \<bar>(snd pos1 - snd pos) * (fst pos2 - fst pos)
                - (fst pos1 - fst pos) * (snd pos2 - snd pos)\<bar> \<ge> tol then False
      else if sgn (fst pos1 - fst pos) = sgn (fst pos - fst pos2)
              \<and> sgn (snd pos1 - snd pos) = sgn (snd pos - snd pos2) then True
      else False)"

text \<open>\<open>crossing(line1, line2)\<close>: the flag of \<open>cal_crosspoint\<close>, cleared twice.\<close>

definition crossing :: "line \<Rightarrow> line \<Rightarrow> bool \<times> point" where
  "crossing line1 line2 =
     (let (flag, cross_point) = cal_crosspoint line1 line2;
          flag = (if \<not> is_online line1 cross_point then False else flag);
          flag = (if \<not> is_online line2 cross_point then False else flag)
      in (flag, cross_point))"


section \<open>Obstacle map\<close>

text \<open>
  The class \<open>MAP\<close>: \<open>lines\<close> is the array of wall segments. The constructor pairs the
  consecutive vertices of every polyline (\<open>zip(wall_vertices[:-1], wall_vertices[1:])\<close>).
\<close>

record MAP =
  lines :: "line list"

definition MAP_init :: "point list list \<Rightarrow> MAP" where
  "MAP_init walls = \<lparr>lines = concat (map (\<lambda>wall_vertices. zip (butlast wall_vertices) (tl wall_vertices)) walls)\<rparr>"

text \<open>
  \<open>is_collision(line)\<close>: the loop over \<open>self.lines\<close> with its two variables \<open>res_flag\<close>
  and \<open>cross_points\<close>.
\<close>

fun is_collision_loop :: "line list \<Rightarrow> line \<Rightarrow> bool \<times> point list \<Rightarrow> bool \<times> point list" where
  "is_collision_loop [] line (res_flag, cross_points) = (res_flag, cross_points)"
| "is_collision_loop (road_line # rest) line (res_flag, cross_points) =
     (let (flag, cross_point) = crossing road_line line
      in if flag then is_collision_loop rest line (True, cross_points @ [cross_point])
         else is_collision_loop rest line (res_flag, cross_points))"

definition is_collision :: "MAP \<Rightarrow> line \<Rightarrow> bool \<times> point list" where
  "is_collision m line = is_collision_loop (lines m) line (False, [])"

section \<open>Vehicle kinematic model\<close>

text \<open>
  The class \<open>Car\<close>. The dictionary \<open>params\<close> has the fixed key set \<open>_params_name\<close>; each
  key is a field (\<open>p_x\<close> for \<open>params["x"]\<close>, and so on; every value is an array
  of one number, \<open>pos\<close> an array of two). The attributes \<open>dpos\<close> and \<open>step_dis\<close> do not
  exist before the first call of \<open>update\<close>, hence the option type. \<open>_histories\<close> holds one
  array per key.
\<close>

record histories =
  h_x :: "real list"
  h_y :: "real list"
  h_yaw :: "real list"
  h_vx :: "real list"
  h_vy :: "real list"
  h_v :: "real list"
  h_a :: "real list"
  h_s :: "real list"
  h_pos :: "point list"
  h_time :: "real list"
  h_dt :: "real list"

record car =
  p_x :: real
  p_y :: real
  p_yaw :: real
  p_vx :: real
  p_vy :: real
  p_v :: real
  p_a :: real
  p_s :: real
  p_pos :: point
  p_time :: real
  p_dt :: real
  dpos :: "line option"
  step_dis :: "real option"
  total_dis :: real
  car_histories :: histories

text \<open>
  \<open>_nparams\<close>: the buffer that \<open>_model\<close> fills with the keys x, y, vx, yaw and that
  \<open>update\<close> reads in the same call; it is passed as a value.
\<close>

record nparams =
  n_x :: real
  n_y :: real
  n_vx :: real
  n_yaw :: real

text \<open>The last two lines of \<open>_params_update\<close>: \<open>pos\<close> and \<open>v\<close> are recomputed.\<close>

definition params_derived :: "car \<Rightarrow> car" where
  "params_derived c =
     (let c = c\<lparr>p_pos := (p_x c, p_y c)\<rparr>
      in c\<lparr>p_v := sqrt ((p_vx c)\<^sup>2 + (p_vy c)\<^sup>2)\<rparr>)"

text \<open>\<open>_params_update(self._nparams)\<close>: the four keys of the buffer are copied first.\<close>

definition params_update :: "car \<Rightarrow> nparams \<Rightarrow> car" where
  "params_update c np =
     params_derived (c\<lparr>p_x := n_x np, p_y := n_y np, p_vx := n_vx np, p_yaw := n_yaw np\<rparr>)"

text \<open>\<open>_params_history_update\<close>: every key's current value is appended to its history.\<close>

definition params_history_update :: "car \<Rightarrow> car" where
  "params_history_update c =
     (let h = car_histories c
      in c\<lparr>car_histories :=
           h\<lparr>h_x := h_x h @ [p_x c], h_y := h_y h @ [p_y c], h_yaw := h_yaw h @ [p_yaw c],
             h_vx := h_vx h @ [p_vx c], h_vy := h_vy h @ [p_vy c], h_v := h_v h @ [p_v c],
             h_a := h_a h @ [p_a c], h_s := h_s h @ [p_s c], h_time := h_time h @ [p_time c],
             h_dt := h_dt h @ [p_dt c], h_pos := h_pos h @ [p_pos c]\<rparr>\<rparr>)"

text \<open>
  \<open>Car(x=..., y=..., yaw=..., vx=..., vy=...)\<close>: the documented keyword arguments; every
  other key starts at 0. \<open>_params_update(self.params)\<close> copies every key to itself and
  then recomputes \<open>pos\<close> and \<open>v\<close>. The histories of \<open>dt\<close>, \<open>a\<close> and \<open>s\<close> are overwritten
  after the loop that creates them.
\<close>

definition Car_init :: "real \<Rightarrow> real \<Rightarrow> real \<Rightarrow> real \<Rightarrow> real \<Rightarrow> car" where
  "Car_init x y yaw vx vy =
     (let c = params_derived
            \<lparr>p_x = x, p_y = y, p_yaw = yaw, p_vx = vx, p_vy = vy, p_v = 0, p_a = 0, p_s = 0,
             p_pos = (0, 0), p_time = 0, p_dt = 0, dpos = None, step_dis = None,
             total_dis = 0,
             car_histories = \<lparr>h_x = [], h_y = [], h_yaw = [], h_vx = [], h_vy = [],
               h_v = [], h_a = [], h_s = [], h_pos = [], h_time = [], h_dt = []\<rparr>\<rparr>
      in c\<lparr>car_histories :=
           \<lparr>h_x = [p_x c], h_y = [p_y c], h_yaw = [p_yaw c], h_vx = [p_vx c],
            h_vy = [p_vy c], h_v = [p_v c], h_a = [], h_s = [], h_pos = [p_pos c],
            h_time = [p_time c], h_dt = [0]\<rparr>\<rparr>)"

text \<open>\<open>_model\<close>: advances \<open>time\<close> and computes the next x, y, vx, yaw from the current keys.\<close>

definition model_car :: "car \<Rightarrow> car \<times> nparams" where
  "model_car c =
     (let c = c\<lparr>p_time := p_time c + p_dt c\<rparr>
      in (c, \<lparr>n_x = p_x c + p_vx c * cos (p_yaw c) * p_dt c,
              n_y = p_y c + p_vx c * sin (p_yaw c) * p_dt c,
              n_vx = p_vx c + p_a c * p_dt c,
              n_yaw = p_yaw c + p_s c * p_dt c\<rparr>))"

text \<open>\<open>update(a, steer, dt)\<close>, statement by statement.\<close>

definition update :: "car \<Rightarrow> real \<Rightarrow> real \<Rightarrow> real \<Rightarrow> car" where
  "update c a steer dt =
     (let c = c\<lparr>p_a := a\<rparr>;
          c = c\<lparr>p_s := steer\<rparr>;
          c = c\<lparr>p_dt := dt\<rparr>;
          c = c\<lparr>p_time := p_time c + p_dt c\<rparr>;
          (c, np) = model_car c;
          npos = (n_x np, n_y np);
          c = c\<lparr>dpos := Some (p_pos c, npos)\<rparr>;
          sd = distance (p_pos c) npos;
          c = c\<lparr>step_dis := Some sd\<rparr>;
          c = c\<lparr>total_dis := total_dis c + sd\<rparr>;
          c = params_update c np
      in params_history_update c)"

section \<open>Sensor array\<close>

text \<open>
  Exceptions of the program are values of this type; a function that can raise returns
  \<open>error + 'a\<close>.
\<close>

datatype error =
  ZeroDivisionError | UnboundLocalError | IndexError | AttributeError | ValueError | RuntimeError

text \<open>
  The class \<open>LiDAR\<close>. The attribute \<open>car\<close> is a reference to the vehicle object, which
  \<open>Car.update\<close> changes in place; \<open>make_line\<close> reads the vehicle's current \<open>params\<close> through
  it, so the vehicle's current state is an argument of \<open>make_line\<close> below.
\<close>

record LiDAR =
  sensor_num :: nat
  sensor_angles_std :: "real list"
  line_len :: real
  line_num :: int
  line_delta :: real

definition deg2rad :: "real \<Rightarrow> real" where
  "deg2rad d = d * pi / 180"

text \<open>Python's \<open>int(q)\<close> on a float: truncation towards zero.\<close>

definition py_int :: "real \<Rightarrow> int" where
  "py_int q = (if 0 \<le> q then \<lfloor>q\<rfloor> else \<lceil>q\<rceil>)"

text \<open>
  \<open>LiDAR(car, sensor_angle_max, sensor_num, line_len, line_delta)\<close>. The two divisions
  raise \<open>ZeroDivisionError\<close> for \<open>sensor_num = 1\<close> and for \<open>line_delta = 0\<close>.
\<close>

definition LiDAR_init :: "real \<Rightarrow> nat \<Rightarrow> real \<Rightarrow> real \<Rightarrow> error + LiDAR" where
  "LiDAR_init sensor_angle_max sensor_num' line_len' line_delta' =
     (let sensor_angle_min = - sensor_angle_max / 2
      in if int sensor_num' - 1 = 0 then Inl ZeroDivisionError
         else
           (let sensor_angle_delta = sensor_angle_max / real_of_int (int sensor_num' - 1);
                sensor_angles_std' =
                  map (\<lambda>i. sensor_angle_min + sensor_angle_delta * real i) [0..<sensor_num']
            in if line_delta' = 0 then Inl ZeroDivisionError
               else Inr \<lparr>sensor_num = sensor_num',
                         sensor_angles_std = map deg2rad sensor_angles_std',
                         line_len = line_len',
                         line_num = py_int ((line_len' + line_delta') / line_delta'),
                         line_delta = line_delta'\<rparr>))"

text \<open>
  The inner loop \<open>for p in points\<close> of \<open>make_line\<close>, on its two variables \<open>line_dis\<close> and
  \<open>point\<close>. \<open>point\<close> is \<open>None\<close> while the local variable is unbound.
\<close>

fun nearest_loop :: "point \<Rightarrow> point list \<Rightarrow> real \<times> point option \<Rightarrow> real \<times> point option" where
  "nearest_loop pos [] (line_dis, point) = (line_dis, point)"
| "nearest_loop pos (p # ps) (line_dis, point) =
     (let dis = distance pos p
      in if dis < line_dis then nearest_loop pos ps (dis, Some p)
         else nearest_loop pos ps (line_dis, point))"

text \<open>
  The outer loop \<open>for i, sensor_angle in enumerate(sensor_angles)\<close> on the variables
  \<open>line_reaches_wall\<close>, \<open>line_end_pos\<close>, \<open>line_distaces\<close> and \<open>point\<close>. \<open>point\<close> is assigned
  in the \<open>else\<close> branch and inside the guarded inner loop only, and keeps its value from
  one ray to the next; reading it while unbound raises \<open>UnboundLocalError\<close>. The
  assignment \<open>line_reaches_wall[i] = True\<close> raises \<open>IndexError\<close> outside the list.
\<close>

fun make_line_loop ::
  "LiDAR \<Rightarrow> MAP \<Rightarrow> point \<Rightarrow> (nat \<times> real) list
   \<Rightarrow> bool list \<times> point list \<times> real list \<times> point option
   \<Rightarrow> error + (point list \<times> bool list \<times> real list)" where
  "make_line_loop lidar m pos [] (line_reaches_wall, line_end_pos, line_distaces, point) =
     Inr (line_end_pos, line_reaches_wall, line_distaces)"
| "make_line_loop lidar m pos ((i, sensor_angle) # rest)
       (line_reaches_wall, line_end_pos, line_distaces, point) =
     (let cos_angle = cos sensor_angle;
          sin_angle = sin sensor_angle;
          line_end_xy = (fst pos + cos_angle * line_len lidar, snd pos + sin_angle * line_len lidar);
          sensor_line = (line_end_xy, pos);
          line_dis = line_len lidar;
          (flag, points) = is_collision m sensor_line
      in if flag then
           (if i < length line_reaches_wall then
              (let line_reaches_wall = line_reaches_wall[i := True];
                   (line_dis, point) = nearest_loop pos points (line_dis, point)
               in case point of
                    None \<Rightarrow> Inl UnboundLocalError
                  | Some p \<Rightarrow>
                      make_line_loop lidar m pos rest
                        (line_reaches_wall, line_end_pos @ [p], line_distaces @ [line_dis], Some p))
            else Inl IndexError)
         else
           make_line_loop lidar m pos rest
             (line_reaches_wall, line_end_pos @ [line_end_xy], line_distaces @ [line_dis],
              Some line_end_xy))"

text \<open>
  \<open>make_line(map)\<close> for a sensor whose vehicle is in state \<open>c\<close>: returns
  \<open>line_end_pos, line_reaches_wall, line_distaces\<close>.
\<close>

definition make_line :: "LiDAR \<Rightarrow> car \<Rightarrow> MAP \<Rightarrow> error + (point list \<times> bool list \<times> real list)" where
  "make_line lidar c m =
     (let pos = p_pos c;
          yaw = p_yaw c;
          sensor_angles = map (\<lambda>a. a + yaw) (sensor_angles_std lidar)
      in make_line_loop lidar m pos (enumerate 0 sensor_angles)
           (replicate (sensor_num lidar) False, [], [], None))"

section \<open>Episode rollout\<close>

text \<open>The module-level configuration read by \<open>dicide_action\<close> and \<open>episode\<close>.\<close>

definition max_number_of_steps :: nat where
  "max_number_of_steps = 200"

definition direction_list :: "real list" where
  "direction_list = [1, 1 / 2, 0, - (1 / 2), - 1]"

definition acceleration_list :: "real list" where
  "acceleration_list = [1, 1 / 2, 0, - (1 / 2), - 1]"

definition ACTION_LIST :: "(real \<times> real) list" where
  "ACTION_LIST = concat (map (\<lambda>d. map (\<lambda>a. (d, a)) acceleration_list) direction_list)"

definition steer_step :: real where
  "steer_step = 90"

definition NUM_ACTIONS :: nat where
  "NUM_ACTIONS = length ACTION_LIST"

definition collision_reward :: real where
  "collision_reward = 0"

text \<open>
  One entry of \<open>experiences\<close> (the dictionary \<open>step_dict\<close>); the action is the triple
  \<open>steer, a, dt\<close>.
\<close>

record step_dict =
  sd_state :: "real list"
  sd_output :: "real list"
  sd_reward :: real
  sd_action :: "real \<times> real \<times> real"
  sd_one_hot :: "real list"
  sd_done :: bool

text \<open>
  The two external collaborators of the rollout, both parameters of the model:
  \<^item> \<open>model\<close>, the network: from the observation to the output vector, or an exception;
  \<^item> \<open>choice\<close>, the call \<open>np.random.choice(range(NUM_ACTIONS), p=prop)\<close>: from the
    probability vector to the drawn index, or an exception. The rollout passes
    \<open>choice k\<close> to its \<open>k\<close>-th call of \<open>dicide_action\<close>, so that successive draws are
    independent of each other.
  \<open>dicide_action(output)\<close> indexes \<open>one_hot\<close> and \<open>ACTION_LIST\<close> with the drawn index.
\<close>

definition dicide_action ::
  "(real list \<Rightarrow> error + nat) \<Rightarrow> real list \<Rightarrow> error + ((real \<times> real \<times> real) \<times> real list)" where
  "dicide_action choice output =
     (let prop = output;
          one_hot = replicate NUM_ACTIONS (0::real)
      in case choice prop of
           Inl e \<Rightarrow> Inl e
         | Inr action \<Rightarrow>
             if action < length one_hot then
               (let one_hot = one_hot[action := 1]
                in if action < length ACTION_LIST then
                     (let (steer, a) = ACTION_LIST ! action;
                          steer = steer * deg2rad steer_step
                      in Inr ((steer, a, 1 / 10), one_hot))
                   else Inl IndexError)
             else Inl IndexError)"

text \<open>\<open>output @ one_hot\<close> on two vectors: the sizes must agree.\<close>

definition dot :: "real list \<Rightarrow> real list \<Rightarrow> error + real" where
  "dot u w = (if length u = length w then Inr (sum_list (map2 (*) u w)) else Inl RuntimeError)"

text \<open>The variables of the \<open>while\<close> loop of \<open>episode\<close>.\<close>

record rollout =
  ep_car :: car
  experiences :: "step_dict list"
  ep_step :: nat
  pi_list :: "real option list"
  reward_list :: "real option list"

text \<open>
  One execution of the loop body, for the step budget \<open>n\<close>, returning the value of \<open>done\<close>
  with the variables. The padded tensors hold \<open>None\<close> for \<open>nan\<close>. The sensor is bound to
  the vehicle of the rollout, as at both call sites of \<open>episode\<close>. The plotting under
  \<open>vis\<close> changes no variable and is left out.
\<close>

definition episode_body ::
  "nat \<Rightarrow> LiDAR \<Rightarrow> MAP \<Rightarrow> (real list \<Rightarrow> error + real list) \<Rightarrow> (nat \<Rightarrow> real list \<Rightarrow> error + nat)
   \<Rightarrow> rollout \<Rightarrow> error + (bool \<times> rollout)" where
  "episode_body n lidar m model choice st =
     (case make_line lidar (ep_car st) m of
        Inl e \<Rightarrow> Inl e
      | Inr (points, flags, distances) \<Rightarrow>
          (let vx = [p_vx (ep_car st)];
               input = distances @ vx
           in case model input of
                Inl e \<Rightarrow> Inl e
              | Inr output \<Rightarrow>
                  (case dicide_action (choice (ep_step st)) output of
                     Inl e \<Rightarrow> Inl e
                   | Inr (action, one_hot) \<Rightarrow>
                       (case action of (steer, a, dt) \<Rightarrow>
                          (let c = update (ep_car st) a steer dt
                           in case step_dis c of
                                None \<Rightarrow> Inl AttributeError
                              | Some reward \<Rightarrow>
                                  (case dpos c of
                                     None \<Rightarrow> Inl AttributeError
                                   | Some d \<Rightarrow>
   (let (collision_flag, collision_point) = is_collision m d;
        reward = (if collision_flag then collision_reward else reward);
        done' = (if collision_flag then True else False);
        done' = (if int (length (experiences st)) \<ge> int n - 1 then True else done');
        step_dict = \<lparr>sd_state = distances, sd_output = output, sd_reward = reward,
                      sd_action = action, sd_one_hot = one_hot, sd_done = done'\<rparr>;
        experiences' = experiences st @ [step_dict]
    in case dot (sd_output step_dict) (sd_one_hot step_dict) of
         Inl e \<Rightarrow> Inl e
       | Inr p \<Rightarrow>
           if ep_step st < length (pi_list st) then
             (let pi_list' = (pi_list st)[ep_step st := Some p]
              in if ep_step st < length (reward_list st) then
                   (let reward_list' = (reward_list st)[ep_step st := Some (sd_reward step_dict)]
                    in Inr (done', \<lparr>ep_car = c, experiences = experiences',
                                      ep_step = ep_step st + 1, pi_list = pi_list',
                                      reward_list = reward_list'\<rparr>))
                 else Inl IndexError)
           else Inl IndexError)))))))"

text \<open>The loop \<open>while done == False\<close>.\<close>

function episode_loop ::
  "nat \<Rightarrow> LiDAR \<Rightarrow> MAP \<Rightarrow> (real list \<Rightarrow> error + real list) \<Rightarrow> (nat \<Rightarrow> real list \<Rightarrow> error + nat)
   \<Rightarrow> rollout \<Rightarrow> error + rollout" where
  "episode_loop n lidar m model choice st =
     (case episode_body n lidar m model choice st of
        Inl e \<Rightarrow> Inl e
      | Inr (done', st') \<Rightarrow>
          if done' then Inr st' else episode_loop n lidar m model choice st')"
  by pat_completeness auto
termination
proof (relation "measure (\<lambda>(n, lidar, m, model, choice, st). n - length (experiences st))")
  show "wf (measure (\<lambda>(n, lidar, m, model, choice, st). n - length (experiences st)))"
    by simp
next
  fix n :: nat and lidar m model choice st x2 and d :: bool and st'
  assume b: "episode_body n lidar m model choice st = Inr x2"
    and x: "(d, st') = x2" and nd: "\<not> d"
  from b x nd have "length (experiences st') = Suc (length (experiences st))
      \<and> int (length (experiences st)) < int n - 1"
    by (auto simp: episode_body_def Let_def dot_def
          split: sum.splits prod.splits option.splits if_splits)
  then have "n - length (experiences st') < n - length (experiences st)"
    by linarith
  then show "((n, lidar, m, model, choice, st'), (n, lidar, m, model, choice, st))
      \<in> measure (\<lambda>(n, lidar, m, model, choice, st). n - length (experiences st))"
    by simp
qed

declare episode_loop.simps [simp del]

text \<open>
  \<open>episode(car, lidar, Map, model)\<close>: returns
  \<open>experiences, pi_list.reshape(1,-1), reward_list.reshape(1,-1), step\<close>; each reshaped
  tensor is one row of the batch.
\<close>

definition episode ::
  "car \<Rightarrow> LiDAR \<Rightarrow> MAP \<Rightarrow> (real list \<Rightarrow> error + real list) \<Rightarrow> (nat \<Rightarrow> real list \<Rightarrow> error + nat)
   \<Rightarrow> error + (step_dict list \<times> real option list \<times> real option list \<times> nat)" where
  "episode c lidar m model choice =
     (case episode_loop max_number_of_steps lidar m model choice
             \<lparr>ep_car = c, experiences = [], ep_step = 0,
              pi_list = replicate max_number_of_steps None,
              reward_list = replicate max_number_of_steps None\<rparr> of
        Inl e \<Rightarrow> Inl e
      | Inr st \<Rightarrow> Inr (experiences st, pi_list st, reward_list st, ep_step st))"

section \<open>Policy-gradient trainer\<close>

text \<open>
  This section computes in exact arithmetic, which is enough for the layout of the padded
  tensors and for what the reductions read; the rounding of float32 is modelled in the
  next section.

  Tensors with the marker: an entry is \<open>None\<close> for \<open>nan\<close>. \<open>nansum\<close> adds a row with \<open>nan\<close>
  counted as zero; \<open>mean\<close> of an empty tensor is \<open>nan\<close>.
\<close>

definition nansum :: "real option list \<Rightarrow> real" where
  "nansum row = sum_list (map (\<lambda>v. case v of None \<Rightarrow> 0 | Some r \<Rightarrow> r) row)"

definition mean :: "real list \<Rightarrow> real option" where
  "mean vs = (if vs = [] then None else Some (sum_list vs / real (length vs)))"

text \<open>Elementwise arithmetic on tensors with the marker: \<open>nan\<close> propagates.\<close>

fun nan_sub :: "real option \<Rightarrow> real option \<Rightarrow> real option" where
  "nan_sub (Some u) (Some w) = Some (u - w)"
| "nan_sub _ _ = None"

fun nan_mul :: "real option \<Rightarrow> real option \<Rightarrow> real option" where
  "nan_mul (Some u) (Some w) = Some (u * w)"
| "nan_mul _ _ = None"

text \<open>\<open>torch.clamp(x, lo, hi)\<close> on one entry.\<close>

definition clamp :: "real \<Rightarrow> real \<Rightarrow> real \<Rightarrow> real" where
  "clamp lo hi p = min (max p lo) hi"

text \<open>
  \<open>update_policy(rewards, policies, steps, opt)\<close> up to the objective \<open>J\<close>, which it hands to
  the optimizer. The shapes are those of the docstring: \<open>rewards\<close> and \<open>policies\<close> are
  \<open>[num_episode, max_number_of_steps]\<close>, \<open>steps\<close> is \<open>[num_episode]\<close> and holds the episode
  lengths, which are positive (a division by a zero length is outside this model).
  \<open>reward_ave\<close>, \<open>clampped\<close> and \<open>Jmt\<close> are the local variables of the source;
  \<open>advantage\<close> is its subexpression \<open>rewards-reward_ave\<close>.
\<close>

definition reward_ave :: "real option list list \<Rightarrow> nat list \<Rightarrow> real option" where
  "reward_ave rewards steps = mean (map2 (\<lambda>row s. nansum row / real s) rewards steps)"

definition clampped :: "real option list list \<Rightarrow> real option list list" where
  "clampped policies = map (map (map_option (clamp (1 / 10 ^ 10) 1))) policies"

definition advantage :: "real option list list \<Rightarrow> nat list \<Rightarrow> real option list list" where
  "advantage rewards steps = map (map (\<lambda>r. nan_sub r (reward_ave rewards steps))) rewards"

definition Jmt :: "real option list list \<Rightarrow> real option list list \<Rightarrow> nat list \<Rightarrow> real option list list" where
  "Jmt rewards policies steps =
     map2 (map2 nan_mul) (map (map (map_option ln)) (clampped policies)) (advantage rewards steps)"

definition update_policy :: "real option list list \<Rightarrow> real option list list \<Rightarrow> nat list \<Rightarrow> real option" where
  "update_policy rewards policies steps =
     mean (map2 (\<lambda>row s. nansum row / real s) (Jmt rewards policies steps) steps)"

section \<open>The trainer in float32 arithmetic\<close>

text \<open>
  The tensors of \<open>update_policy\<close> hold float32 numbers, and every operation on them rounds
  its result to float32. This section models the same function with that rounding.

  \<open>rne\<close> rounds a real number to the nearest integer, ties to the even one. \<open>rnd32\<close> rounds
  a real number to the nearest number with a significand of 24 bits and an exponent of at
  least -126, the binary32 format without its upper bound: the spacing of the format
  around \<open>x\<close> is \<open>2 powi (e - 23)\<close> for the binary exponent \<open>e\<close> of \<open>x\<close>, and never below
  \<open>2 powi (-149)\<close>.
\<close>

definition rne :: "real \<Rightarrow> int" where
  "rne t =
     (let f = \<lfloor>t\<rfloor>; r = t - of_int f
      in if r < 1 / 2 then f else if 1 / 2 < r then f + 1 else if even f then f else f + 1)"

definition expo32 :: "real \<Rightarrow> int" where
  "expo32 x = max \<lfloor>log 2 \<bar>x\<bar>\<rfloor> (- 126)"

definition rnd32 :: "real \<Rightarrow> real" where
  "rnd32 x =
     (if x = 0 then 0
      else (let q = 2 powi (expo32 x - 23) in of_int (rne (x / q)) * q))"

text \<open>
  A float32 value: a finite number, an infinity or \<open>nan\<close>. Zero stands for both signed
  zeros; the sign of a zero matters to a division by it only, and every divisor in
  \<open>update_policy\<close> is a count, hence not a negative zero. \<open>fl32\<close> is the rounding of an exact
  result, overflowing to an infinity from \<open>2 ^ 128\<close> on.
\<close>

datatype f32 = Num real | PosInf | NegInf | NaN

definition fl32 :: "real \<Rightarrow> f32" where
  "fl32 x =
     (let y = rnd32 x
      in if 2 ^ 128 \<le> \<bar>y\<bar> then (if 0 < y then PosInf else NegInf) else Num y)"

text \<open>The IEEE operations on float32 values.\<close>

fun fadd :: "f32 \<Rightarrow> f32 \<Rightarrow> f32" where
  "fadd NaN w = NaN"
| "fadd u NaN = NaN"
| "fadd PosInf NegInf = NaN"
| "fadd NegInf PosInf = NaN"
| "fadd PosInf w = PosInf"
| "fadd u PosInf = PosInf"
| "fadd NegInf w = NegInf"
| "fadd u NegInf = NegInf"
| "fadd (Num a) (Num b) = fl32 (a + b)"




fun fdiv :: "f32 \<Rightarrow> f32 \<Rightarrow> f32" where
  "fdiv NaN w = NaN"
| "fdiv u NaN = NaN"
| "fdiv (Num a) (Num b) =
     (if b = 0 then (if a = 0 then NaN else if 0 < a then PosInf else NegInf)
      else fl32 (a / b))"
| "fdiv (Num a) PosInf = Num 0"
| "fdiv (Num a) NegInf = Num 0"
| "fdiv PosInf (Num b) = (if 0 \<le> b then PosInf else NegInf)"
| "fdiv NegInf (Num b) = (if 0 \<le> b then NegInf else PosInf)"
| "fdiv u w = NaN"



text \<open>
  The reductions. \<open>nansum\<close> adds a row with \<open>nan\<close> replaced by zero, \<open>mean\<close> divides the sum
  by the number of entries (\<open>0 / 0\<close> is \<open>nan\<close> for an empty tensor). The library does not
  fix the order of the additions; the model adds from left to right.
\<close>

definition sum32 :: "f32 list \<Rightarrow> f32" where
  "sum32 vs = foldl fadd (Num 0) vs"

definition nansum32 :: "f32 list \<Rightarrow> f32" where
  "nansum32 row = sum32 (map (\<lambda>v. if v = NaN then Num 0 else v) row)"

definition mean32 :: "f32 list \<Rightarrow> f32" where
  "mean32 vs = fdiv (sum32 vs) (fl32 (real (length vs)))"

text \<open>The lower bound \<open>1e-10\<close> of the clamp as a float32 number.\<close>

definition clamp_lo32 :: real where
  "clamp_lo32 = 14411519 / 2 ^ 57"

text \<open>
  \<open>update_policy\<close> up to the objective \<open>J\<close>, with the local variables of the source as
  before; \<open>steps\<close> holds the episode lengths as float32 numbers.
\<close>

definition reward_ave32 :: "f32 list list \<Rightarrow> nat list \<Rightarrow> f32" where
  "reward_ave32 rewards steps =
     mean32 (map2 (\<lambda>row s. fdiv (nansum32 row) (fl32 (real s))) rewards steps)"





section \<open>Notions used in the statements\<close>

text \<open>None of the definitions of this section is part of the program.\<close>

subsection \<open>Geometry\<close>

text \<open>
  \<open>on_line l p\<close>: the point lies on the infinite line through the
  two endpoints of \<open>l\<close> (in cross-product form; every point satisfies it when the two
  endpoints coincide). \<open>parallel l1 l2\<close>: both segments vertical, or neither vertical and
  the slopes equal.
\<close>

fun on_line :: "line \<Rightarrow> point \<Rightarrow> bool" where
  "on_line ((x1, y1), (x2, y2)) (px, py) = ((x2 - x1) * (py - y1) = (y2 - y1) * (px - x1))"

fun parallel :: "line \<Rightarrow> line \<Rightarrow> bool" where
  "parallel ((x1, y1), (x2, y2)) ((x3, y3), (x4, y4)) =
     ((x1 = x2 \<and> x3 = x4)
      \<or> (x1 \<noteq> x2 \<and> x3 \<noteq> x4 \<and> (y2 - y1) / (x2 - x1) = (y4 - y3) / (x4 - x3)))"

subsection \<open>Sensor, rollout and trainer\<close>

text \<open>
  \<open>ray_end\<close> is the far endpoint of a probe (\<open>line_end_xy\<close> in \<open>make_line\<close>) and
  \<open>reading_ok\<close> the intended reading of one ray: the far endpoint and \<open>line_len\<close>
  without a hit, the nearest crossing point and its distance when a crossing point is
  strictly closer than \<open>line_len\<close>.
  \<open>taken_prob e\<close> is the value \<open>output @ one_hot\<close> of a recorded step; \<open>padded n vs\<close> is
  the tensor of length \<open>n\<close> that holds \<open>vs\<close> followed by markers; \<open>policy_ok\<close> is the
  contract of the two external collaborators (the network returns \<open>NUM_ACTIONS\<close> values,
  the draw returns an index below \<open>NUM_ACTIONS\<close>, neither raises);
  \<open>padded32\<close> is the same tensor with float32 entries, and \<open>canon32 u\<close> says that \<open>u\<close>
  is a float32 value (a finite one is left unchanged by the rounding).
  \<open>baseline_of_logs\<close> and \<open>objective_of_logs\<close> follow the description of the update
  rule (per-episode mean reward, baseline, clamped logarithm times reward minus baseline,
  per-episode mean, batch mean) on the step logs alone, without any padding.
\<close>

definition ray_end :: "LiDAR \<Rightarrow> point \<Rightarrow> real \<Rightarrow> point" where
  "ray_end lidar pos a = (fst pos + cos a * line_len lidar, snd pos + sin a * line_len lidar)"

definition reading_ok :: "LiDAR \<Rightarrow> MAP \<Rightarrow> point \<Rightarrow> real \<Rightarrow> point \<times> real \<Rightarrow> bool" where
  "reading_ok lidar m pos a r =
     (case is_collision m (ray_end lidar pos a, pos) of
        (flag, pts) \<Rightarrow>
          if \<not> flag then r = (ray_end lidar pos a, line_len lidar)
          else if \<exists>p\<in>set pts. distance pos p < line_len lidar
            then snd r = Min (distance pos ` set pts) \<and> fst r \<in> set pts
                 \<and> distance pos (fst r) = snd r
          else True)"

definition taken_prob :: "step_dict \<Rightarrow> real" where
  "taken_prob e = sum_list (map2 (*) (sd_output e) (sd_one_hot e))"

definition padded :: "nat \<Rightarrow> real list \<Rightarrow> real option list" where
  "padded n vs = map Some vs @ replicate (n - length vs) None"

definition policy_ok :: "(real list \<Rightarrow> error + real list) \<Rightarrow> (nat \<Rightarrow> real list \<Rightarrow> error + nat) \<Rightarrow> bool" where
  "policy_ok model choice =
     ((\<forall>inp. \<exists>outp. model inp = Inr outp \<and> length outp = NUM_ACTIONS)
      \<and> (\<forall>k p. \<exists>a. choice k p = Inr a \<and> a < NUM_ACTIONS))"

definition baseline_of_logs :: "step_dict list list \<Rightarrow> real option" where
  "baseline_of_logs logs =
     mean (map (\<lambda>lg. sum_list (map sd_reward lg) / real (length lg)) logs)"

definition objective_of_logs :: "step_dict list list \<Rightarrow> real option" where
  "objective_of_logs logs =
     (case baseline_of_logs logs of
        None \<Rightarrow> None
      | Some b \<Rightarrow>
          mean (map (\<lambda>lg. sum_list (map (\<lambda>e. ln (clamp (1 / 10 ^ 10) 1 (taken_prob e))
                                              * (sd_reward e - b)) lg)
                           / real (length lg)) logs))"



subsection \<open>Example inputs\<close>

text \<open>
  A sensor of three rays, a map with one wall at x = 1/2, a vehicle at the origin heading
  along the x axis with speed 10, a uniform policy and a draw that always returns 0.
\<close>

abbreviation ex_lidar :: LiDAR where
  "ex_lidar \<equiv> \<lparr>sensor_num = 3, sensor_angles_std = [- (pi / 2), 0, pi / 2], line_len = 30,
              line_num = 301, line_delta = 1 / 10\<rparr>"

abbreviation ex_map :: MAP where
  "ex_map \<equiv> MAP_init [[(1 / 2, - 1), (1 / 2, 1)]]"

abbreviation ex_car :: car where
  "ex_car \<equiv> Car_init 0 0 0 10 0"

abbreviation ex_model :: "real list \<Rightarrow> error + real list" where
  "ex_model \<equiv> \<lambda>inp. Inr (replicate NUM_ACTIONS (1 / real NUM_ACTIONS))"

abbreviation ex_choice :: "nat \<Rightarrow> real list \<Rightarrow> error + nat" where
  "ex_choice \<equiv> \<lambda>k p. Inr 0"

abbreviation ex_step :: step_dict where
  "ex_step \<equiv> \<lparr>sd_state = [30, 1 / 2, 30],
               sd_output = replicate NUM_ACTIONS (1 / real NUM_ACTIONS),
               sd_reward = 0, sd_action = (pi / 2, 1, 1 / 10),
               sd_one_hot = (replicate NUM_ACTIONS 0)[0 := 1], sd_done = True\<rparr>"

abbreviation ex_start :: rollout where
  "ex_start \<equiv> \<lparr>ep_car = ex_car, experiences = [], ep_step = 0,
              pi_list = replicate max_number_of_steps None,
              reward_list = replicate max_number_of_steps None\<rparr>"

section \<open>Properties of the geometry kernel\<close>

lemma crossing_fst:
  "fst (crossing l1 l2) =
     (fst (cal_crosspoint l1 l2) \<and> is_online l1 (snd (cal_crosspoint l1 l2))
        \<and> is_online l2 (snd (cal_crosspoint l1 l2)))"
  by (simp add: crossing_def Let_def split: prod.splits)

lemma crossing_snd: "snd (crossing l1 l2) = snd (cal_crosspoint l1 l2)"
  by (simp add: crossing_def Let_def split: prod.splits)

lemma cal_crosspoint_parallel_iff: "fst (cal_crosspoint l1 l2) = (\<not> parallel l1 l2)"
  by (cases "(l1, l2)" rule: cal_crosspoint.cases) (simp add: Let_def)

lemma cal_crosspoint_on_line1:
  "fst (cal_crosspoint l1 l2) \<Longrightarrow> on_line l1 (snd (cal_crosspoint l1 l2))"
  by (cases "(l1, l2)" rule: cal_crosspoint.cases) (simp add: Let_def split: if_splits)

lemma meet_x:
  fixes a1 a3 :: real
  assumes "a1 \<noteq> a3"
  shows "a1 * ((a1 * x1 - y1 - a3 * x3 + y3) / (a1 - a3) - x1) + y1
         = a3 * ((a1 * x1 - y1 - a3 * x3 + y3) / (a1 - a3) - x3) + y3"
proof -
  define x where "x = (a1 * x1 - y1 - a3 * x3 + y3) / (a1 - a3)"
  have "x * (a1 - a3) = a1 * x1 - y1 - a3 * x3 + y3"
    using assms by (simp add: x_def)
  then have "a1 * (x - x1) + y1 = a3 * (x - x3) + y3"
    by (simp add: algebra_simps)
  then show ?thesis by (simp add: x_def)
qed

lemma cal_crosspoint_on_line2:
  "fst (cal_crosspoint l1 l2) \<Longrightarrow> on_line l2 (snd (cal_crosspoint l1 l2))"
proof (cases "(l1, l2)" rule: cal_crosspoint.cases)
  case (1 x1 y1 x2 y2 x3 y3 x4 y4)
  assume f: "fst (cal_crosspoint l1 l2)"
  from 1 have l: "l1 = ((x1, y1), (x2, y2))" "l2 = ((x3, y3), (x4, y4))" by simp_all
  show ?thesis
  proof (cases "x1 = x2")
    case True
    with f l have "x3 \<noteq> x4" by auto
    with True l show ?thesis by simp
  next
    case ne12: False
    show ?thesis
    proof (cases "x3 = x4")
      case True
      with ne12 l show ?thesis by simp
    next
      case ne34: False
      define a1 where "a1 = (y2 - y1) / (x2 - x1)"
      define a3 where "a3 = (y4 - y3) / (x4 - x3)"
      from f l ne12 ne34 have ne: "a1 \<noteq> a3"
        by (auto simp: Let_def a1_def a3_def split: if_splits)
      define x where "x = (a1 * x1 - y1 - a3 * x3 + y3) / (a1 - a3)"
      have p: "snd (cal_crosspoint l1 l2) = (x, a1 * (x - x1) + y1)"
        using l ne12 ne34 ne by (simp add: Let_def a1_def a3_def x_def)
      have "a1 * (x - x1) + y1 = a3 * (x - x3) + y3"
        unfolding x_def by (rule meet_x [OF ne])
      then have "(x4 - x3) * (a1 * (x - x1) + y1 - y3) = (y4 - y3) * (x - x3)"
        using ne34 by (simp add: a3_def)
      with p l show ?thesis by simp
    qed
  qed
qed

text \<open>
  C7. \<open>crossing\<close> reports a crossing only together with the point computed by
  \<open>cal_crosspoint\<close>, which then lies on both infinite lines and passes the tolerance-based
  \<open>is_online\<close> test for both segments; conversely that is the only condition. For parallel
  segments (both vertical, or equal slopes) it reports no crossing, in particular for
  (0,0)-(10,0) and (0,1)-(10,1).
\<close>

theorem crossing_true_only_on_both_segments:
  "(fst (crossing l1 l2) \<longrightarrow>
      snd (crossing l1 l2) = snd (cal_crosspoint l1 l2)
      \<and> on_line l1 (snd (crossing l1 l2)) \<and> on_line l2 (snd (crossing l1 l2))
      \<and> is_online l1 (snd (crossing l1 l2)) \<and> is_online l2 (snd (crossing l1 l2)))
   \<and> (fst (crossing l1 l2) =
        (\<not> parallel l1 l2 \<and> is_online l1 (snd (cal_crosspoint l1 l2))
           \<and> is_online l2 (snd (cal_crosspoint l1 l2))))
   \<and> (parallel l1 l2 \<longrightarrow> \<not> fst (crossing l1 l2))
   \<and> \<not> fst (crossing ((0, 0), (10, 0)) ((0, 1), (10, 1)))"
proof -
  have a: "fst (crossing l1 l2) =
        (\<not> parallel l1 l2 \<and> is_online l1 (snd (cal_crosspoint l1 l2))
           \<and> is_online l2 (snd (cal_crosspoint l1 l2)))"
    by (simp add: crossing_fst cal_crosspoint_parallel_iff)
  have b: "fst (crossing l1 l2) \<Longrightarrow>
      on_line l1 (snd (crossing l1 l2)) \<and> on_line l2 (snd (crossing l1 l2))"
    by (simp add: crossing_fst crossing_snd cal_crosspoint_on_line1 cal_crosspoint_on_line2)
  have c: "fst (crossing l1 l2) \<Longrightarrow>
      is_online l1 (snd (crossing l1 l2)) \<and> is_online l2 (snd (crossing l1 l2))"
    by (simp add: crossing_fst crossing_snd)
  have d: "\<not> fst (crossing ((0, 0), (10, 0)) ((0, 1), (10, 1)))"
    by (simp add: crossing_def)
  from a b c d show ?thesis
    by (simp add: crossing_snd)
qed

theorem crossing_true_only_on_both_segments_witness:
  "fst (crossing ((0, 0), (10, 10)) ((0, 10), (10, 0)))
   \<and> snd (crossing ((0, 0), (10, 10)) ((0, 10), (10, 0))) = (5, 5)
   \<and> on_line ((0, 0), (10, 10)) (5, 5) \<and> on_line ((0, 10), (10, 0)) (5, 5)
   \<and> is_online ((0, 0), (10, 10)) (5, 5) \<and> is_online ((0, 10), (10, 0)) (5, 5)
   \<and> parallel ((0, 0), (10, 0)) ((0, 1), (10, 1))
   \<and> \<not> fst (crossing ((0, 0), (10, 0)) ((0, 1), (10, 1)))"
proof -
  have h: "fst (crossing ((0, 0), (10, 10)) ((0, 10), (10, 0)))"
    by (simp add: crossing_def tol_def)
  have p: "snd (cal_crosspoint ((0, 0), (10, 10)) ((0, 10), (10, 0))) = (5, 5)"
    by simp
  have q: "parallel ((0, 0), (10, 0)) ((0, 1), (10, 1))"
    by simp
  from h p q
    crossing_true_only_on_both_segments [of "((0, 0), (10, 10))" "((0, 10), (10, 0))"]
    crossing_true_only_on_both_segments [of "((0, 0), (10, 0))" "((0, 1), (10, 1))"]
  show ?thesis by simp
qed
section \<open>Properties of the vehicle model\<close>

lemma update_fields:
  "p_x (update c a steer dt) = p_x c + p_vx c * cos (p_yaw c) * dt"
  "p_y (update c a steer dt) = p_y c + p_vx c * sin (p_yaw c) * dt"
  "p_vx (update c a steer dt) = p_vx c + a * dt"
  "p_yaw (update c a steer dt) = p_yaw c + steer * dt"
  "p_vy (update c a steer dt) = p_vy c"
  "p_v (update c a steer dt) = sqrt ((p_vx c + a * dt)\<^sup>2 + (p_vy c)\<^sup>2)"
  "p_time (update c a steer dt) = p_time c + 2 * dt"
  "p_a (update c a steer dt) = a"
  "p_s (update c a steer dt) = steer"
  "p_dt (update c a steer dt) = dt"
  "p_pos (update c a steer dt)
     = (p_x c + p_vx c * cos (p_yaw c) * dt, p_y c + p_vx c * sin (p_yaw c) * dt)"
  "dpos (update c a steer dt)
     = Some (p_pos c, (p_x c + p_vx c * cos (p_yaw c) * dt, p_y c + p_vx c * sin (p_yaw c) * dt))"
  "step_dis (update c a steer dt)
     = Some (distance (p_pos c)
               (p_x c + p_vx c * cos (p_yaw c) * dt, p_y c + p_vx c * sin (p_yaw c) * dt))"
  "total_dis (update c a steer dt)
     = total_dis c + distance (p_pos c)
               (p_x c + p_vx c * cos (p_yaw c) * dt, p_y c + p_vx c * sin (p_yaw c) * dt)"
  by (simp_all add: update_def model_car_def params_update_def params_derived_def
        params_history_update_def Let_def)

lemma Car_init_fields:
  "p_x (Car_init x y yaw vx vy) = x"
  "p_y (Car_init x y yaw vx vy) = y"
  "p_yaw (Car_init x y yaw vx vy) = yaw"
  "p_vx (Car_init x y yaw vx vy) = vx"
  "p_vy (Car_init x y yaw vx vy) = vy"
  "p_v (Car_init x y yaw vx vy) = sqrt (vx\<^sup>2 + vy\<^sup>2)"
  "p_pos (Car_init x y yaw vx vy) = (x, y)"
  "p_time (Car_init x y yaw vx vy) = 0"
  "total_dis (Car_init x y yaw vx vy) = 0"
  by (simp_all add: Car_init_def params_derived_def Let_def)

text \<open>
  C1. One call of \<open>update\<close> from any state with any control: x, y, vx and yaw follow the
  transition equations, vy is unchanged and v is recomputed from the new vx and vy. A
  vehicle created at (0,0) with yaw 0 and vx 1, updated once with a = 0, steer = 0, dt = 1,
  is at (1,0) with the same yaw and speed, and its \<open>step_dis\<close> is 1.
\<close>

theorem update_one_step:
  "p_x (update c a steer dt) = p_x c + p_vx c * cos (p_yaw c) * dt
   \<and> p_y (update c a steer dt) = p_y c + p_vx c * sin (p_yaw c) * dt
   \<and> p_vx (update c a steer dt) = p_vx c + a * dt
   \<and> p_yaw (update c a steer dt) = p_yaw c + steer * dt
   \<and> p_vy (update c a steer dt) = p_vy c
   \<and> p_v (update c a steer dt) = sqrt ((p_vx (update c a steer dt))\<^sup>2 + (p_vy c)\<^sup>2)
   \<and> p_pos (update (Car_init 0 0 0 1 0) 0 0 1) = (1, 0)
   \<and> p_x (update (Car_init 0 0 0 1 0) 0 0 1) = 1
   \<and> p_y (update (Car_init 0 0 0 1 0) 0 0 1) = 0
   \<and> p_yaw (update (Car_init 0 0 0 1 0) 0 0 1) = p_yaw (Car_init 0 0 0 1 0)
   \<and> p_v (update (Car_init 0 0 0 1 0) 0 0 1) = p_v (Car_init 0 0 0 1 0)
   \<and> p_vx (update (Car_init 0 0 0 1 0) 0 0 1) = p_vx (Car_init 0 0 0 1 0)
   \<and> step_dis (update (Car_init 0 0 0 1 0) 0 0 1) = Some 1"
  by (simp add: update_fields Car_init_fields distance_def)

text \<open>
  C6. One call of \<open>update\<close> with time step dt advances \<open>time\<close> by 2 dt: once in \<open>update\<close>
  itself and once in \<open>_model\<close>. Position, velocity and yaw each advance by a single
  multiple of dt.
\<close>

theorem update_time_twice:
  "p_time (update c a steer dt) = p_time c + 2 * dt
   \<and> p_time (fst (model_car c)) = p_time c + p_dt c
   \<and> p_time (update c a steer dt) - p_time c = 2 * (p_dt (update c a steer dt))
   \<and> p_x (update c a steer dt) - p_x c = p_vx c * cos (p_yaw c) * dt
   \<and> p_y (update c a steer dt) - p_y c = p_vx c * sin (p_yaw c) * dt
   \<and> p_vx (update c a steer dt) - p_vx c = a * dt
   \<and> p_yaw (update c a steer dt) - p_yaw c = steer * dt"
  by (simp add: update_fields model_car_def)

section \<open>Properties of the sensor array\<close>

lemma upt3: "[0..<3] = [0, 1, 2]"
  by (simp add: upt_rec)

lemma lidar3:
  "LiDAR_init 180 3 30 (1 / 10)
     = Inr \<lparr>sensor_num = 3, sensor_angles_std = [- (pi / 2), 0, pi / 2], line_len = 30,
            line_num = 301, line_delta = 1 / 10\<rparr>"
  by (simp add: LiDAR_init_def Let_def upt3 deg2rad_def py_int_def)

lemma cr1: "crossing ((- 10, - 30), (10, - 30)) ((0, - 30), (0, 0)) = (True, (0, - 30))"
  by (simp add: crossing_def tol_def)

lemma col1:
  "is_collision (MAP_init [[(- 10, - 30), (10, - 30)]]) ((0, - 30), (0, 0)) = (True, [(0, - 30)])"
  by (simp add: is_collision_def MAP_init_def cr1)

lemma d1: "distance (0, 0) (0, - 30) = 30"
  by (simp add: distance_def)

lemma unbound_eval:
  "make_line \<lparr>sensor_num = 3, sensor_angles_std = [- (pi / 2), 0, pi / 2], line_len = 30,
              line_num = 301, line_delta = 1 / 10\<rparr>
     (Car_init 0 0 0 1 0) (MAP_init [[(- 10, - 30), (10, - 30)]]) = Inl UnboundLocalError"
  by (simp add: make_line_def Car_init_def params_derived_def Let_def enumerate_eq_zip upt3 col1 d1)

text \<open>
  C10. Evaluation at a failing input. A sensor of three rays on a vehicle at the origin with
  yaw 0, range 30, and one wall from (-10,-30) to (10,-30): the first ray ends at (0,-30),
  \<open>is_collision\<close> reports a hit there, the only crossing point is at distance 30, which is
  not below \<open>line_len\<close>, so \<open>point\<close> is never assigned and \<open>make_line\<close> raises
  \<open>UnboundLocalError\<close>.
\<close>

theorem make_line_unbound_point:
  "LiDAR_init 180 3 30 (1 / 10)
     = Inr \<lparr>sensor_num = 3, sensor_angles_std = [- (pi / 2), 0, pi / 2], line_len = 30,
            line_num = 301, line_delta = 1 / 10\<rparr>
   \<and> is_collision (MAP_init [[(- 10, - 30), (10, - 30)]]) ((0, - 30), (0, 0))
       = (True, [(0, - 30)])
   \<and> \<not> distance (p_pos (Car_init 0 0 0 1 0)) (0, - 30) < 30
   \<and> make_line \<lparr>sensor_num = 3, sensor_angles_std = [- (pi / 2), 0, pi / 2], line_len = 30,
              line_num = 301, line_delta = 1 / 10\<rparr>
        (Car_init 0 0 0 1 0) (MAP_init [[(- 10, - 30), (10, - 30)]])
       = Inl UnboundLocalError"
proof (intro conjI)
  show "\<not> distance (p_pos (Car_init 0 0 0 1 0)) (0, - 30) < 30"
    by (simp add: Car_init_def params_derived_def d1)
qed (rule lidar3 col1 unbound_eval)+

lemma cr2a: "crossing ((30, - 10), (30, 10)) ((0, - 30), (0, 0)) = (False, (0, 0))"
  by (simp add: crossing_def tol_def)

lemma cr2b: "crossing ((30, - 10), (30, 10)) ((30, 0), (0, 0)) = (True, (30, 0))"
  by (simp add: crossing_def tol_def)

lemma cr2c: "crossing ((30, - 10), (30, 10)) ((0, 30), (0, 0)) = (False, (0, 0))"
  by (simp add: crossing_def tol_def)

lemma col2:
  "is_collision (MAP_init [[(30, - 10), (30, 10)]]) ((0, - 30), (0, 0)) = (False, [])"
  "is_collision (MAP_init [[(30, - 10), (30, 10)]]) ((30, 0), (0, 0)) = (True, [(30, 0)])"
  "is_collision (MAP_init [[(30, - 10), (30, 10)]]) ((0, 30), (0, 0)) = (False, [])"
  by (simp_all add: is_collision_def MAP_init_def cr2a cr2b cr2c)

lemma d2: "distance (0, 0) (30, 0) = 30"
  by (simp add: distance_def)

lemma stale_eval:
  "make_line \<lparr>sensor_num = 3, sensor_angles_std = [- (pi / 2), 0, pi / 2], line_len = 30,
              line_num = 301, line_delta = 1 / 10\<rparr>
     (Car_init 0 0 0 1 0) (MAP_init [[(30, - 10), (30, 10)]])
   = Inr ([(0, - 30), (0, - 30), (0, 30)], [False, True, False], [30, 30, 30])"
  by (simp add: make_line_def Car_init_def params_derived_def Let_def enumerate_eq_zip upt3 col2 d2
        numeral_3_eq_3)

text \<open>
  C4. Evaluation at a failing input. The same sensor and vehicle with one wall from
  (30,-10) to (30,10): the second ray crosses the wall at (30,0), at distance 30 exactly, so
  \<open>point\<close> keeps the value left by the first ray; the reading of the second ray has the hit
  flag set and the endpoint (0,-30), which is not a crossing point of that ray.
\<close>

theorem make_line_stale_point:
  "LiDAR_init 180 3 30 (1 / 10)
     = Inr \<lparr>sensor_num = 3, sensor_angles_std = [- (pi / 2), 0, pi / 2], line_len = 30,
            line_num = 301, line_delta = 1 / 10\<rparr>
   \<and> is_collision (MAP_init [[(30, - 10), (30, 10)]]) ((30, 0), (0, 0)) = (True, [(30, 0)])
   \<and> make_line \<lparr>sensor_num = 3, sensor_angles_std = [- (pi / 2), 0, pi / 2], line_len = 30,
              line_num = 301, line_delta = 1 / 10\<rparr>
        (Car_init 0 0 0 1 0) (MAP_init [[(30, - 10), (30, 10)]])
       = Inr ([(0, - 30), (0, - 30), (0, 30)], [False, True, False], [30, 30, 30])
   \<and> (0, - 30) \<notin> set [(30, 0) :: point]"
proof (intro conjI)
  show "(0, - 30) \<notin> set [(30, 0) :: point]"
    by simp
qed (rule lidar3 col2 stale_eval)+

lemma nearest_loop_min:
  "nearest_loop pos ps (ld, pt) = (ld', pt')
   \<Longrightarrow> ld' \<le> ld \<and> (\<forall>p\<in>set ps. ld' \<le> distance pos p)
       \<and> (ld' < ld \<longrightarrow> (\<exists>p\<in>set ps. pt' = Some p \<and> distance pos p = ld'))
       \<and> (\<not> ld' < ld \<longrightarrow> pt' = pt)"
proof (induction ps arbitrary: ld pt)
  case Nil
  then show ?case by simp
next
  case (Cons p ps)
  show ?case
  proof (cases "distance pos p < ld")
    case True
    with Cons.prems have r: "nearest_loop pos ps (distance pos p, Some p) = (ld', pt')"
      by (simp add: Let_def)
    from Cons.IH [OF r] True show ?thesis
      by (cases "ld' < distance pos p") auto
  next
    case False
    with Cons.prems have r: "nearest_loop pos ps (ld, pt) = (ld', pt')"
      by (simp add: Let_def)
    from Cons.IH [OF r] False show ?thesis
      by auto
  qed
qed

lemma nearest_loop_hit:
  assumes n: "nearest_loop pos ps (ld, pt) = (ld', pt')"
    and c: "\<exists>p\<in>set ps. distance pos p < ld"
  shows "ld' = Min (distance pos ` set ps)
       \<and> (\<exists>p\<in>set ps. pt' = Some p \<and> distance pos p = ld')"
proof -
  note m = nearest_loop_min [OF n]
  from c m have lt: "ld' < ld" by force
  with m obtain p where p: "p \<in> set ps" "pt' = Some p" "distance pos p = ld'"
    by blast
  have "Min (distance pos ` set ps) = ld'"
  proof (rule Min_eqI)
    show "finite (distance pos ` set ps)" by simp
    show "\<And>y. y \<in> distance pos ` set ps \<Longrightarrow> ld' \<le> y" using m by auto
    show "ld' \<in> distance pos ` set ps" using p by auto
  qed
  with p show ?thesis by auto
qed

lemma make_line_loop_readings:
  "make_line_loop lidar m pos angles (f, e, d, pt) = Inr (e', f', d')
   \<Longrightarrow> \<exists>rs. e' = e @ map fst rs \<and> d' = d @ map snd rs
          \<and> list_all2 (\<lambda>ia r. reading_ok lidar m pos (snd ia) r) angles rs
          \<and> length f' = length f
          \<and> (\<forall>k<length f. f' ! k =
                (f ! k \<or> (\<exists>ia\<in>set angles. fst ia = k
                              \<and> fst (is_collision m (ray_end lidar pos (snd ia), pos)))))"
proof (induction angles arbitrary: f e d pt)
  case Nil
  then show ?case by simp
next
  case (Cons ia angles)
  obtain i a where ia: "ia = (i, a)" by (cases ia)
  obtain flag pts where col: "is_collision m (ray_end lidar pos a, pos) = (flag, pts)"
    by (cases "is_collision m (ray_end lidar pos a, pos)")
  show ?case
  proof (cases flag)
    case False
    with Cons.prems col have r: "make_line_loop lidar m pos angles
        (f, e @ [ray_end lidar pos a], d @ [line_len lidar], Some (ray_end lidar pos a))
        = Inr (e', f', d')"
      by (simp add: ia Let_def ray_end_def)
    from Cons.IH [OF r] obtain rs where rs: "e' = (e @ [ray_end lidar pos a]) @ map fst rs"
      "d' = (d @ [line_len lidar]) @ map snd rs"
      "list_all2 (\<lambda>ia r. reading_ok lidar m pos (snd ia) r) angles rs"
      "length f' = length f"
      "\<forall>k<length f. f' ! k =
                (f ! k \<or> (\<exists>ia\<in>set angles. fst ia = k
                              \<and> fst (is_collision m (ray_end lidar pos (snd ia), pos))))"
      by blast
    have ok: "reading_ok lidar m pos a (ray_end lidar pos a, line_len lidar)"
      using col False by (simp add: reading_ok_def)
    show ?thesis
      using rs ok col False
      by (intro exI [of _ "(ray_end lidar pos a, line_len lidar) # rs"]) (simp add: ia)
  next
    case True
    with Cons.prems col have i: "i < length f"
      by (simp add: ia Let_def ray_end_def split: if_splits)
    obtain ld pt' where nl: "nearest_loop pos pts (line_len lidar, pt) = (ld, pt')"
      by (cases "nearest_loop pos pts (line_len lidar, pt)")
    with Cons.prems col True i obtain p where p: "pt' = Some p"
      by (cases pt') (simp_all add: ia Let_def ray_end_def)
    with Cons.prems col True i nl have r: "make_line_loop lidar m pos angles
        (f[i := True], e @ [p], d @ [ld], Some p) = Inr (e', f', d')"
      by (simp add: ia Let_def ray_end_def)
    from Cons.IH [OF r] obtain rs where rs: "e' = (e @ [p]) @ map fst rs"
      "d' = (d @ [ld]) @ map snd rs"
      "list_all2 (\<lambda>ia r. reading_ok lidar m pos (snd ia) r) angles rs"
      "length f' = length (f[i := True])"
      "\<forall>k<length (f[i := True]). f' ! k =
                (f[i := True] ! k \<or> (\<exists>ia\<in>set angles. fst ia = k
                              \<and> fst (is_collision m (ray_end lidar pos (snd ia), pos))))"
      by blast
    have ok: "reading_ok lidar m pos a (p, ld)"
      using col True nearest_loop_hit [OF nl] p by (auto simp: reading_ok_def)
    have fl: "\<forall>k<length f. f' ! k =
                (f ! k \<or> (\<exists>ia\<in>set ((i, a) # angles). fst ia = k
                              \<and> fst (is_collision m (ray_end lidar pos (snd ia), pos))))"
      using rs(5) col True i by (auto simp: nth_list_update)
    show ?thesis
      using rs(1-4) ok fl
      by (intro exI [of _ "(p, ld) # rs"]) (simp add: ia)
  qed
qed

text \<open>
  The readings of \<open>make_line\<close> when it returns: without a hit a ray reports its far endpoint
  and \<open>line_len\<close>; with a hit of which some crossing point is strictly closer than
  \<open>line_len\<close> it reports the minimum distance to a crossing point and a crossing point at
  that distance; the flag of a ray is the hit flag of its probe.
\<close>

lemma make_line_readings:
  assumes ml: "make_line lidar c m = Inr (points, flags, distances)"
    and j: "j < length (sensor_angles_std lidar)"
  shows "reading_ok lidar m (p_pos c) (sensor_angles_std lidar ! j + p_yaw c)
           (points ! j, distances ! j)
       \<and> length points = length (sensor_angles_std lidar)
       \<and> length distances = length (sensor_angles_std lidar)
       \<and> length flags = sensor_num lidar
       \<and> (j < sensor_num lidar \<longrightarrow>
            flags ! j = fst (is_collision m
              (ray_end lidar (p_pos c) (sensor_angles_std lidar ! j + p_yaw c), p_pos c)))"
proof -
  let ?angles = "enumerate 0 (map (\<lambda>a. a + p_yaw c) (sensor_angles_std lidar))"
  from ml have "make_line_loop lidar m (p_pos c) ?angles
      (replicate (sensor_num lidar) False, [], [], None) = Inr (points, flags, distances)"
    by (simp add: make_line_def Let_def)
  from make_line_loop_readings [OF this] obtain rs where
    e: "points = map fst rs" and d: "distances = map snd rs"
    and ok: "list_all2 (\<lambda>ia r. reading_ok lidar m (p_pos c) (snd ia) r) ?angles rs"
    and lf: "length flags = sensor_num lidar"
    and fl: "\<forall>k<sensor_num lidar. flags ! k =
        (\<exists>ia\<in>set ?angles. fst ia = k
            \<and> fst (is_collision m (ray_end lidar (p_pos c) (snd ia), p_pos c)))"
    by auto
  from ok have len: "length rs = length (sensor_angles_std lidar)"
    by (simp add: list_all2_lengthD [symmetric])
  have nth: "?angles ! j = (j, sensor_angles_std lidar ! j + p_yaw c)"
    using j by (simp add: nth_enumerate_eq)
  from list_all2_nthD [OF ok, of j] j nth
  have r: "reading_ok lidar m (p_pos c) (sensor_angles_std lidar ! j + p_yaw c) (rs ! j)"
    by simp
  have "flags ! j = fst (is_collision m
              (ray_end lidar (p_pos c) (sensor_angles_std lidar ! j + p_yaw c), p_pos c))"
    if "j < sensor_num lidar"
  proof -
    have "(\<exists>ia\<in>set ?angles. fst ia = j
            \<and> fst (is_collision m (ray_end lidar (p_pos c) (snd ia), p_pos c)))
        = fst (is_collision m
              (ray_end lidar (p_pos c) (sensor_angles_std lidar ! j + p_yaw c), p_pos c))"
    proof
      assume "\<exists>ia\<in>set ?angles. fst ia = j
            \<and> fst (is_collision m (ray_end lidar (p_pos c) (snd ia), p_pos c))"
      then obtain ia where "ia \<in> set ?angles" "fst ia = j"
        "fst (is_collision m (ray_end lidar (p_pos c) (snd ia), p_pos c))"
        by blast
      moreover from this(1,2) j have "snd ia = sensor_angles_std lidar ! j + p_yaw c"
        by (auto simp: in_set_enumerate_eq)
      ultimately show "fst (is_collision m
              (ray_end lidar (p_pos c) (sensor_angles_std lidar ! j + p_yaw c), p_pos c))"
        by simp
    next
      assume h: "fst (is_collision m
              (ray_end lidar (p_pos c) (sensor_angles_std lidar ! j + p_yaw c), p_pos c))"
      have "?angles ! j \<in> set ?angles"
        using j by (intro nth_mem) simp
      with nth h show "\<exists>ia\<in>set ?angles. fst ia = j
            \<and> fst (is_collision m (ray_end lidar (p_pos c) (snd ia), p_pos c))"
        by (intro bexI [of _ "?angles ! j"]) simp_all
    qed
    with fl that show ?thesis by simp
  qed
  with r e d len lf j show ?thesis
    by simp
qed

section \<open>Properties of the rollout\<close>

lemma update_dpos:
  "dpos (update c a steer dt) = Some (p_pos c, p_pos (update c a steer dt))"
  by (simp add: update_fields)

lemma update_step_dis:
  "step_dis (update c a steer dt) = Some (distance (p_pos c) (p_pos (update c a steer dt)))"
  by (simp add: update_fields)

lemma episode_body_InrD:
  assumes "episode_body n lidar m model choice st = Inr (d, st')"
  shows "\<exists>points flags distances output steer a dt one_hot.
      make_line lidar (ep_car st) m = Inr (points, flags, distances)
    \<and> model (distances @ [p_vx (ep_car st)]) = Inr output
    \<and> dicide_action (choice (ep_step st)) output = Inr ((steer, a, dt), one_hot)
    \<and> ep_car st' = update (ep_car st) a steer dt
    \<and> length output = length one_hot
    \<and> ep_step st < length (pi_list st) \<and> ep_step st < length (reward_list st)
    \<and> d = (fst (is_collision m (p_pos (ep_car st), p_pos (ep_car st')))
             \<or> int n - 1 \<le> int (length (experiences st)))
    \<and> experiences st' = experiences st @
         [\<lparr>sd_state = distances, sd_output = output,
           sd_reward = (if fst (is_collision m (p_pos (ep_car st), p_pos (ep_car st')))
                        then collision_reward
                        else distance (p_pos (ep_car st)) (p_pos (ep_car st'))),
           sd_action = (steer, a, dt), sd_one_hot = one_hot, sd_done = d\<rparr>]
    \<and> ep_step st' = ep_step st + 1
    \<and> pi_list st' = (pi_list st)[ep_step st := Some (sum_list (map2 (*) output one_hot))]
    \<and> reward_list st' = (reward_list st)[ep_step st :=
           Some (if fst (is_collision m (p_pos (ep_car st), p_pos (ep_car st')))
                        then collision_reward
                        else distance (p_pos (ep_car st)) (p_pos (ep_car st')))]"
  using assms
  by (auto simp: episode_body_def Let_def dot_def update_dpos update_step_dis
          split: sum.splits prod.splits if_splits)

lemma length_padded: "length (padded n vs) = max n (length vs)"
  by (simp add: padded_def)

lemma padded_Nil: "padded n [] = replicate n None"
  by (simp add: padded_def)

lemma padded_update:
  assumes "length vs < n"
  shows "(padded n vs)[length vs := Some v] = padded n (vs @ [v])"
proof -
  from assms obtain k where k: "n - length vs = Suc k"
    by (cases "n - length vs") auto
  then have k': "n - Suc (length vs) = k" by simp
  show ?thesis
    by (simp add: padded_def k k' list_update_append)
qed

lemma episode_loop_Inr:
  assumes "episode_loop n lidar m model choice st = Inr stf"
    and "ep_step st = length (experiences st)"
    and "pi_list st = padded n (map taken_prob (experiences st))"
    and "reward_list st = padded n (map sd_reward (experiences st))"
    and "\<forall>e\<in>set (experiences st). \<not> sd_done e"
  shows "ep_step stf = length (experiences stf)
    \<and> pi_list stf = padded n (map taken_prob (experiences stf))
    \<and> reward_list stf = padded n (map sd_reward (experiences stf))
    \<and> experiences stf \<noteq> []
    \<and> length (experiences stf) \<le> n
    \<and> sd_done (last (experiences stf))
    \<and> (\<forall>e\<in>set (butlast (experiences stf)). \<not> sd_done e)"
  using assms
proof (induction n lidar m model choice st rule: episode_loop.induct)
  case (1 n lidar m model choice st)
  from "1.prems"(1) obtain d st' where
    b: "episode_body n lidar m model choice st = Inr (d, st')"
    by (subst (asm) episode_loop.simps) (auto split: sum.splits)
  from episode_body_InrD [OF b] obtain distances outp steer a dt one_hot r where
    lt: "ep_step st < length (pi_list st)"
    and ex: "experiences st' = experiences st @
         [\<lparr>sd_state = distances, sd_output = outp, sd_reward = r,
           sd_action = (steer, a, dt), sd_one_hot = one_hot, sd_done = d\<rparr>]"
    and stp: "ep_step st' = ep_step st + 1"
    and pl: "pi_list st' = (pi_list st)[ep_step st := Some (sum_list (map2 (*) outp one_hot))]"
    and rl: "reward_list st' = (reward_list st)[ep_step st := Some r]"
    by blast
  from lt "1.prems"(2,3) have len: "length (experiences st) < n"
    by (simp add: length_padded)
  have i1: "ep_step st' = length (experiences st')"
    using stp ex "1.prems"(2) by simp
  have tp: "taken_prob \<lparr>sd_state = distances, sd_output = outp, sd_reward = r,
           sd_action = (steer, a, dt), sd_one_hot = one_hot, sd_done = d\<rparr>
        = sum_list (map2 (*) outp one_hot)"
    by (simp add: taken_prob_def)
  have i2: "pi_list st' = padded n (map taken_prob (experiences st'))"
    using pl "1.prems"(2,3) ex padded_update [of "map taken_prob (experiences st)" n] len tp
    by simp
  have i3: "reward_list st' = padded n (map sd_reward (experiences st'))"
    using rl "1.prems"(2,4) ex padded_update [of "map sd_reward (experiences st)" n] len
    by simp
  show ?case
  proof (cases d)
    case True
    with "1.prems"(1) b have "stf = st'"
      by (subst (asm) episode_loop.simps) simp
    with i1 i2 i3 ex True len "1.prems"(5) show ?thesis
      by simp
  next
    case False
    with "1.prems"(1) b have l: "episode_loop n lidar m model choice st' = Inr stf"
      by (subst (asm) episode_loop.simps) simp
    have i4: "\<forall>e\<in>set (experiences st'). \<not> sd_done e"
      using ex False "1.prems"(5) by simp
    from "1.IH" [OF b refl False l i1 i2 i3 i4] show ?thesis .
  qed
qed

lemma is_collision_no_walls: "lines m = [] \<Longrightarrow> is_collision m seg = (False, [])"
  by (simp add: is_collision_def)

lemma make_line_loop_lengths:
  "make_line_loop lidar m pos angles (f, e, d, pt) = Inr (e', f', d')
   \<Longrightarrow> length d' = length d + length angles \<and> length e' = length e + length angles
       \<and> length f' = length f"
proof (induction angles arbitrary: f e d pt)
  case Nil
  then show ?case by simp
next
  case (Cons ia angles)
  obtain i a where ia: "ia = (i, a)" by (cases ia)
  from Cons.prems show ?case
    unfolding ia
    by (auto simp: Let_def split: prod.splits if_splits option.splits dest!: Cons.IH)
qed

lemma make_line_lengths:
  assumes "make_line lidar c m = Inr (points, flags, distances)"
  shows "length distances = length (sensor_angles_std lidar)
       \<and> length points = length (sensor_angles_std lidar)
       \<and> length flags = sensor_num lidar"
  using make_line_loop_lengths [OF assms [unfolded make_line_def Let_def]]
  by simp

lemma make_line_loop_no_walls:
  "lines m = [] \<Longrightarrow>
   make_line_loop lidar m pos angles (f, e, d, pt)
   = Inr (e @ map (\<lambda>(i, a). (fst pos + cos a * line_len lidar, snd pos + sin a * line_len lidar)) angles,
          f, d @ replicate (length angles) (line_len lidar))"
proof (induction angles arbitrary: f e d pt)
  case Nil
  then show ?case by simp
next
  case (Cons ia angles)
  obtain i a where ia: "ia = (i, a)" by (cases ia)
  show ?case
    unfolding ia
    by (simp add: Let_def is_collision_no_walls [OF Cons.prems] Cons.IH [OF Cons.prems]
          replicate_app_Cons_same)
qed

lemma make_line_no_walls:
  "lines m = [] \<Longrightarrow> \<exists>points distances.
     make_line lidar c m = Inr (points, replicate (sensor_num lidar) False, distances)"
  by (simp add: make_line_def Let_def make_line_loop_no_walls)

lemma dicide_action_ok:
  assumes "choice outp = Inr k" "k < NUM_ACTIONS"
  shows "\<exists>steer a one_hot. dicide_action choice outp = Inr ((steer, a, 1 / 10), one_hot)
          \<and> length one_hot = NUM_ACTIONS"
  using assms
  by (auto simp: dicide_action_def Let_def NUM_ACTIONS_def split: prod.splits)

lemma episode_body_no_walls:
  assumes nw: "lines m = []" and ok: "policy_ok model choice"
    and lt: "ep_step st < length (pi_list st)" "ep_step st < length (reward_list st)"
  shows "\<exists>st'. episode_body n lidar m model choice st
           = Inr (int n - 1 \<le> int (length (experiences st)), st')"
proof -
  from make_line_no_walls [OF nw] obtain points distances where
    ml: "make_line lidar (ep_car st) m = Inr (points, replicate (sensor_num lidar) False, distances)"
    by blast
  from ok obtain outp where
    mo: "model (distances @ [p_vx (ep_car st)]) = Inr outp" and lo: "length outp = NUM_ACTIONS"
    unfolding policy_ok_def by blast
  from ok obtain k where k: "choice (ep_step st) outp = Inr k" "k < NUM_ACTIONS"
    unfolding policy_ok_def by blast
  from dicide_action_ok [of "choice (ep_step st)" outp k, OF k] obtain steer a one_hot where
    da: "dicide_action (choice (ep_step st)) outp = Inr ((steer, a, 1 / 10), one_hot)"
    and l1: "length one_hot = NUM_ACTIONS"
    by blast
  show ?thesis
    using lt lo l1
    by (simp add: episode_body_def ml mo da Let_def update_dpos update_step_dis
          is_collision_no_walls [OF nw] dot_def)
qed

lemma episode_loop_no_walls:
  assumes "lines m = []" and "policy_ok model choice"
    and "ep_step st = length (experiences st)"
    and "pi_list st = padded n (map taken_prob (experiences st))"
    and "reward_list st = padded n (map sd_reward (experiences st))"
    and "length (experiences st) < n"
  shows "\<exists>stf. episode_loop n lidar m model choice st = Inr stf
    \<and> length (experiences stf) = n
    \<and> map sd_done (experiences stf)
        = map sd_done (experiences st) @ replicate (n - 1 - length (experiences st)) False @ [True]"
  using assms
proof (induction n lidar m model choice st rule: episode_loop.induct)
  case (1 n lidar m model choice st)
  let ?d = "int n - 1 \<le> int (length (experiences st))"
  have lt: "ep_step st < length (pi_list st)" "ep_step st < length (reward_list st)"
    using "1.prems"(3,4,5,6) by (simp_all add: length_padded)
  from episode_body_no_walls [OF "1.prems"(1,2) lt] obtain st' where
    b: "episode_body n lidar m model choice st = Inr (?d, st')"
    by blast
  from episode_body_InrD [OF b] obtain distances outp steer a dt one_hot r where
    ex: "experiences st' = experiences st @
         [\<lparr>sd_state = distances, sd_output = outp, sd_reward = r,
           sd_action = (steer, a, dt), sd_one_hot = one_hot, sd_done = ?d\<rparr>]"
    and stp: "ep_step st' = ep_step st + 1"
    and pl: "pi_list st' = (pi_list st)[ep_step st := Some (sum_list (map2 (*) outp one_hot))]"
    and rl: "reward_list st' = (reward_list st)[ep_step st := Some r]"
    by blast
  note len = "1.prems"(6)
  have i1: "ep_step st' = length (experiences st')"
    using stp ex "1.prems"(3) by simp
  have tp: "taken_prob \<lparr>sd_state = distances, sd_output = outp, sd_reward = r,
           sd_action = (steer, a, dt), sd_one_hot = one_hot, sd_done = ?d\<rparr>
        = sum_list (map2 (*) outp one_hot)"
    by (simp add: taken_prob_def)
  have i2: "pi_list st' = padded n (map taken_prob (experiences st'))"
    using pl "1.prems"(3,4) ex padded_update [of "map taken_prob (experiences st)" n] len tp
    by simp
  have i3: "reward_list st' = padded n (map sd_reward (experiences st'))"
    using rl "1.prems"(3,5) ex padded_update [of "map sd_reward (experiences st)" n] len
    by simp
  show ?case
  proof (cases ?d)
    case True
    then have e: "episode_loop n lidar m model choice st = Inr st'"
      using b by (subst episode_loop.simps) simp
    from True len have k: "n - 1 - length (experiences st) = 0" "Suc (length (experiences st)) = n"
      by linarith+
    show ?thesis
      using e ex True k by simp
  next
    case False
    then have e: "episode_loop n lidar m model choice st = episode_loop n lidar m model choice st'"
      using b by (subst episode_loop.simps) simp
    from False have len': "length (experiences st') < n"
      using ex by simp
    from False len obtain j where j: "n - 1 - length (experiences st) = Suc j"
      "n - 1 - length (experiences st') = j"
      using ex by (cases "n - 1 - length (experiences st)") simp_all
    from "1.IH" [OF b refl False "1.prems"(1,2) i1 i2 i3 len'] obtain stf where
      "episode_loop n lidar m model choice st' = Inr stf" "length (experiences stf) = n"
      "map sd_done (experiences stf)
        = map sd_done (experiences st') @ replicate (n - 1 - length (experiences st')) False @ [True]"
      by blast
    then show ?thesis
      using e ex False j by (simp add: replicate_app_Cons_same)
  qed
qed

lemma NUM_ACTIONS_25: "NUM_ACTIONS = 25"
  by (simp add: NUM_ACTIONS_def ACTION_LIST_def direction_list_def acceleration_list_def)

lemma ACTION_LIST_0: "ACTION_LIST ! 0 = (1, 1)"
  by (simp add: ACTION_LIST_def direction_list_def acceleration_list_def)

lemma ex_decide:
  "dicide_action (\<lambda>p. Inr 0) outp = Inr ((pi / 2, 1, 1 / 10), (replicate NUM_ACTIONS 0)[0 := 1])"
  using NUM_ACTIONS_25
  by (simp add: dicide_action_def Let_def ACTION_LIST_0 deg2rad_def steer_step_def
        flip: NUM_ACTIONS_def)

lemma ex_cross:
  "crossing ((1 / 2, - 1), (1 / 2, 1)) ((0, - 30), (0, 0)) = (False, (0, 0))"
  "crossing ((1 / 2, - 1), (1 / 2, 1)) ((30, 0), (0, 0)) = (True, (1 / 2, 0))"
  "crossing ((1 / 2, - 1), (1 / 2, 1)) ((0, 30), (0, 0)) = (False, (0, 0))"
  "crossing ((1 / 2, - 1), (1 / 2, 1)) ((0, 0), (1, 0)) = (True, (1 / 2, 0))"
  by (simp_all add: crossing_def tol_def)

lemma ex_collision:
  "is_collision ex_map ((0, - 30), (0, 0)) = (False, [])"
  "is_collision ex_map ((30, 0), (0, 0)) = (True, [(1 / 2, 0)])"
  "is_collision ex_map ((0, 30), (0, 0)) = (False, [])"
  "is_collision ex_map ((0, 0), (1, 0)) = (True, [(1 / 2, 0)])"
  by (simp_all add: is_collision_def MAP_init_def ex_cross)

lemma ex_distance: "distance (0, 0) (1 / 2, 0) = 1 / 2"
  by (simp add: distance_def)

lemma ex_make_line:
  "make_line ex_lidar ex_car ex_map
   = Inr ([(0, - 30), (1 / 2, 0), (0, 30)], [False, True, False], [30, 1 / 2, 30])"
  by (simp add: make_line_def Car_init_fields Let_def enumerate_eq_zip upt3 ex_collision
        ex_distance numeral_3_eq_3)

lemma ex_update_pos: "p_pos (update ex_car 1 (pi / 2) (1 / 10)) = (1, 0)"
  by (simp add: update_fields Car_init_fields)

lemma ex_body:
  "episode_body max_number_of_steps ex_lidar ex_map ex_model ex_choice
     \<lparr>ep_car = ex_car, experiences = [], ep_step = 0,
      pi_list = replicate max_number_of_steps None,
      reward_list = replicate max_number_of_steps None\<rparr>
   = Inr (True, \<lparr>ep_car = update ex_car 1 (pi / 2) (1 / 10), experiences = [ex_step],
                ep_step = 1,
                pi_list = (replicate max_number_of_steps None)[0 := Some (taken_prob ex_step)],
                reward_list = (replicate max_number_of_steps None)[0 := Some 0]\<rparr>)"
  by (simp add: episode_body_def ex_make_line ex_decide Let_def update_dpos update_step_dis
        ex_update_pos Car_init_fields ex_collision dot_def collision_reward_def taken_prob_def
        max_number_of_steps_def)

lemma ex_episode:
  "episode ex_car ex_lidar ex_map ex_model ex_choice
   = Inr ([ex_step], (replicate max_number_of_steps None)[0 := Some (taken_prob ex_step)],
          (replicate max_number_of_steps None)[0 := Some 0], 1)"
proof -
  have "episode_loop max_number_of_steps ex_lidar ex_map ex_model ex_choice
     \<lparr>ep_car = ex_car, experiences = [], ep_step = 0,
      pi_list = replicate max_number_of_steps None,
      reward_list = replicate max_number_of_steps None\<rparr>
   = Inr \<lparr>ep_car = update ex_car 1 (pi / 2) (1 / 10), experiences = [ex_step],
                ep_step = 1,
                pi_list = (replicate max_number_of_steps None)[0 := Some (taken_prob ex_step)],
                reward_list = (replicate max_number_of_steps None)[0 := Some 0]\<rparr>"
    by (subst episode_loop.simps) (simp add: ex_body)
  then show ?thesis
    by (simp add: episode_def)
qed

lemma max_number_of_steps_pos: "0 < max_number_of_steps"
  by (simp add: max_number_of_steps_def)

lemma padded_nth:
  "i < length vs \<Longrightarrow> padded n vs ! i = Some (vs ! i)"
  "length vs \<le> i \<Longrightarrow> i < n \<Longrightarrow> padded n vs ! i = None"
  by (simp_all add: padded_def nth_append)

lemma padded_marker:
  assumes "i < n"
  shows "(padded n vs ! i \<noteq> None) = (i < length vs)"
proof (cases "i < length vs")
  case True
  then show ?thesis by (simp add: padded_nth)
next
  case False
  with assms show ?thesis by (simp add: padded_nth)
qed

lemma init_rollout_inv:
  "ep_step \<lparr>ep_car = c, experiences = [], ep_step = 0,
              pi_list = replicate n None, reward_list = replicate n None\<rparr>
     = length (experiences \<lparr>ep_car = c, experiences = [], ep_step = 0,
              pi_list = replicate n None, reward_list = replicate n None\<rparr>)"
  "pi_list \<lparr>ep_car = c, experiences = [], ep_step = 0,
              pi_list = replicate n None, reward_list = replicate n None\<rparr>
     = padded n (map taken_prob (experiences \<lparr>ep_car = c, experiences = [], ep_step = 0,
              pi_list = replicate n None, reward_list = replicate n None\<rparr>))"
  "reward_list \<lparr>ep_car = c, experiences = [], ep_step = 0,
              pi_list = replicate n None, reward_list = replicate n None\<rparr>
     = padded n (map sd_reward (experiences \<lparr>ep_car = c, experiences = [], ep_step = 0,
              pi_list = replicate n None, reward_list = replicate n None\<rparr>))"
  "\<forall>e\<in>set (experiences \<lparr>ep_car = c, experiences = [], ep_step = 0,
              pi_list = replicate n None, reward_list = replicate n None\<rparr>). \<not> sd_done e"
  by (simp_all add: padded_Nil)

lemma episode_Inr_layout:
  assumes "episode c lidar m model choice = Inr (exps, pis, rews, step)"
  shows "step = length exps
    \<and> pis = padded max_number_of_steps (map taken_prob exps)
    \<and> rews = padded max_number_of_steps (map sd_reward exps)
    \<and> exps \<noteq> [] \<and> length exps \<le> max_number_of_steps
    \<and> sd_done (last exps) \<and> (\<forall>e\<in>set (butlast exps). \<not> sd_done e)"
proof (cases "episode_loop max_number_of_steps lidar m model choice
          \<lparr>ep_car = c, experiences = [], ep_step = 0,
           pi_list = replicate max_number_of_steps None,
           reward_list = replicate max_number_of_steps None\<rparr>")
  case (Inl e)
  with assms show ?thesis
    by (simp add: episode_def)
next
  case (Inr stf)
  with assms have r: "exps = experiences stf" "pis = pi_list stf" "rews = reward_list stf"
      "step = ep_step stf"
    by (simp_all add: episode_def)
  from episode_loop_Inr [OF Inr init_rollout_inv] show ?thesis
    unfolding r .
qed

text \<open>
  C2. On a map without wall segments, with a policy and a draw that honour their contract,
  the rollout returns: the loop ends, the returned episode length and the length of the
  step log are both \<open>max_number_of_steps\<close>, the flag \<open>done\<close> is set in the last step only
  (by the step budget), and no segment collides with the map.
\<close>

theorem episode_no_walls_timeout:
  assumes "lines m = []" and "policy_ok model choice"
  shows "\<exists>exps pis rews.
      episode c lidar m model choice = Inr (exps, pis, rews, max_number_of_steps)
    \<and> length exps = max_number_of_steps
    \<and> map sd_done exps = replicate (max_number_of_steps - 1) False @ [True]
    \<and> (\<forall>seg. is_collision m seg = (False, []))"
proof -
  let ?st0 = "\<lparr>ep_car = c, experiences = [], ep_step = 0,
              pi_list = replicate max_number_of_steps None,
              reward_list = replicate max_number_of_steps None\<rparr>"
  have lt: "length (experiences ?st0) < max_number_of_steps"
    by (simp add: max_number_of_steps_pos)
  from episode_loop_no_walls [OF assms init_rollout_inv(1,2,3) lt, where lidar = lidar]
  obtain stf where
    l: "episode_loop max_number_of_steps lidar m model choice ?st0 = Inr stf"
    and n: "length (experiences stf) = max_number_of_steps"
    and d: "map sd_done (experiences stf)
        = map sd_done (experiences ?st0)
          @ replicate (max_number_of_steps - 1 - length (experiences ?st0)) False @ [True]"
    by (elim exE conjE)
  from d have d': "map sd_done (experiences stf)
      = replicate (max_number_of_steps - 1) False @ [True]"
    by simp
  from episode_loop_Inr [OF l init_rollout_inv] have s: "ep_step stf = max_number_of_steps"
    using n by simp
  have e: "episode c lidar m model choice
      = Inr (experiences stf, pi_list stf, reward_list stf, max_number_of_steps)"
    by (simp add: episode_def l s)
  have "\<forall>seg. is_collision m seg = (False, [])"
    using is_collision_no_walls [OF assms(1)] by simp
  with e n d' show ?thesis
    by (intro exI conjI)
qed

theorem episode_no_walls_timeout_witness:
  "lines (MAP_init []) = [] \<and> policy_ok ex_model ex_choice
   \<and> (\<exists>exps pis rews.
        episode ex_car ex_lidar (MAP_init []) ex_model ex_choice
          = Inr (exps, pis, rews, max_number_of_steps)
        \<and> length exps = max_number_of_steps
        \<and> map sd_done exps = replicate (max_number_of_steps - 1) False @ [True])"
proof -
  have a: "lines (MAP_init []) = []"
    by (simp add: MAP_init_def)
  have b: "policy_ok ex_model ex_choice"
    by (simp add: policy_ok_def NUM_ACTIONS_25)
  from episode_no_walls_timeout [OF a b, of ex_car ex_lidar] obtain exps pis rews where
    "episode ex_car ex_lidar (MAP_init []) ex_model ex_choice
          = Inr (exps, pis, rews, max_number_of_steps)"
    "length exps = max_number_of_steps"
    "map sd_done exps = replicate (max_number_of_steps - 1) False @ [True]"
    by (elim exE conjE)
  with a b show ?thesis
    by (intro conjI exI)
qed




text \<open>
  C9. In any step of the rollout the network is applied to the sensor distances followed by
  the vehicle's current \<open>vx\<close> and to nothing else (a network that agrees with it on that
  vector gives the same step); this vector has one entry per ray plus one, that is
  \<open>sensor_num + 1\<close> for a constructed sensor and 16 in the reference configuration of 15
  rays. The recorded state and output of the step are these distances and the network's
  value on the vector.
\<close>

theorem observation_is_distances_and_vx:
  "(make_line lidar (ep_car st) m = Inr (points, flags, distances) \<longrightarrow>
      length (distances @ [p_vx (ep_car st)]) = length (sensor_angles_std lidar) + 1
      \<and> (model (distances @ [p_vx (ep_car st)]) = model' (distances @ [p_vx (ep_car st)]) \<longrightarrow>
           episode_body n lidar m model choice st = episode_body n lidar m model' choice st))
   \<and> (episode_body n lidar m model choice st = Inr (d, st') \<longrightarrow>
        (\<exists>points flags distances.
            make_line lidar (ep_car st) m = Inr (points, flags, distances)
          \<and> sd_state (last (experiences st')) = distances
          \<and> model (distances @ [p_vx (ep_car st)]) = Inr (sd_output (last (experiences st')))))
   \<and> (LiDAR_init sensor_angle_max k len delta = Inr lidar \<longrightarrow>
        length (sensor_angles_std lidar) = k \<and> sensor_num lidar = k)
   \<and> (LiDAR_init 180 15 30 (1 / 10) = Inr lidar \<longrightarrow> length (sensor_angles_std lidar) + 1 = 16)"
proof (intro conjI impI)
  assume ml: "make_line lidar (ep_car st) m = Inr (points, flags, distances)"
  from make_line_lengths [OF ml]
  show "length (distances @ [p_vx (ep_car st)]) = length (sensor_angles_std lidar) + 1"
    by simp
  assume "model (distances @ [p_vx (ep_car st)]) = model' (distances @ [p_vx (ep_car st)])"
  then show "episode_body n lidar m model choice st = episode_body n lidar m model' choice st"
    by (simp add: episode_body_def ml Let_def)
next
  assume b: "episode_body n lidar m model choice st = Inr (d, st')"
  from episode_body_InrD [OF b] obtain points flags distances outp steer a dt one_hot r where
    "make_line lidar (ep_car st) m = Inr (points, flags, distances)"
    "model (distances @ [p_vx (ep_car st)]) = Inr outp"
    "experiences st' = experiences st @
         [\<lparr>sd_state = distances, sd_output = outp, sd_reward = r,
           sd_action = (steer, a, dt), sd_one_hot = one_hot, sd_done = d\<rparr>]"
    by blast
  then show "\<exists>points flags distances.
            make_line lidar (ep_car st) m = Inr (points, flags, distances)
          \<and> sd_state (last (experiences st')) = distances
          \<and> model (distances @ [p_vx (ep_car st)]) = Inr (sd_output (last (experiences st')))"
    by simp
next
  assume "LiDAR_init sensor_angle_max k len delta = Inr lidar"
  then show "length (sensor_angles_std lidar) = k" "sensor_num lidar = k"
    by (auto simp: LiDAR_init_def Let_def split: if_splits)
next
  assume "LiDAR_init 180 15 30 (1 / 10) = Inr lidar"
  then show "length (sensor_angles_std lidar) + 1 = 16"
    by (auto simp: LiDAR_init_def Let_def split: if_splits)
qed

theorem observation_is_distances_and_vx_witness:
  "make_line ex_lidar (ep_car ex_start) ex_map
     = Inr ([(0, - 30), (1 / 2, 0), (0, 30)], [False, True, False], [30, 1 / 2, 30])
   \<and> length ([30, 1 / 2, 30] @ [p_vx (ep_car ex_start)]) = 4
   \<and> episode_body max_number_of_steps ex_lidar ex_map ex_model ex_choice ex_start
       = episode_body max_number_of_steps ex_lidar ex_map
           (\<lambda>inp. if inp = [30, 1 / 2, 30, 10] then ex_model inp else Inl ValueError)
           ex_choice ex_start
   \<and> (\<exists>st' distances.
          episode_body max_number_of_steps ex_lidar ex_map ex_model ex_choice ex_start
            = Inr (True, st')
        \<and> sd_state (last (experiences st')) = distances
        \<and> ex_model (distances @ [p_vx (ep_car ex_start)])
            = Inr (sd_output (last (experiences st'))))
   \<and> LiDAR_init 180 3 30 (1 / 10) = Inr ex_lidar
   \<and> length (sensor_angles_std ex_lidar) = 3
   \<and> (\<exists>lidar. LiDAR_init 180 15 30 (1 / 10) = Inr lidar \<and> sensor_num lidar = 15
        \<and> length (sensor_angles_std lidar) + 1 = 16)"
proof -
  let ?st1 = "\<lparr>ep_car = update ex_car 1 (pi / 2) (1 / 10), experiences = [ex_step],
                ep_step = 1,
                pi_list = (replicate max_number_of_steps None)[0 := Some (taken_prob ex_step)],
                reward_list = (replicate max_number_of_steps None)[0 := Some 0]\<rparr>"
  let ?model' = "\<lambda>inp. if inp = [30, 1 / 2, 30, 10] then ex_model inp else Inl ValueError"
  have ml: "make_line ex_lidar (ep_car ex_start) ex_map
     = Inr ([(0, - 30), (1 / 2, 0), (0, 30)], [False, True, False], [30, 1 / 2, 30])"
    using ex_make_line by simp
  have eq: "ex_model ([30, 1 / 2, 30] @ [p_vx (ep_car ex_start)])
      = ?model' ([30, 1 / 2, 30] @ [p_vx (ep_car ex_start)])"
    by (simp add: Car_init_fields)
  obtain l15 where l15: "LiDAR_init 180 15 30 (1 / 10) = Inr l15"
    by (simp add: LiDAR_init_def Let_def)
  note t1 = observation_is_distances_and_vx
      [where lidar = ex_lidar and st = ex_start and m = ex_map and model = ex_model
         and model' = ?model' and choice = ex_choice and n = max_number_of_steps
         and points = "[(0, - 30), (1 / 2, 0), (0, 30)]" and flags = "[False, True, False]"
         and distances = "[30, 1 / 2, 30]" and d = True and st' = ?st1
         and sensor_angle_max = 180 and k = 3 and len = 30 and delta = "1 / 10"]
  note t2 = observation_is_distances_and_vx
      [where lidar = l15 and sensor_angle_max = 180 and k = 15 and len = 30 and delta = "1 / 10"]
  note A = t1 [THEN conjunct1, THEN mp, OF ml]
  note B = t1 [THEN conjunct2, THEN conjunct1, THEN mp, OF ex_body]
  note C = t1 [THEN conjunct2, THEN conjunct2, THEN conjunct1, THEN mp, OF lidar3]
  note D = t2 [THEN conjunct2, THEN conjunct2, THEN conjunct2, THEN mp, OF l15]
  note D' = t2 [THEN conjunct2, THEN conjunct2, THEN conjunct1, THEN mp, OF l15]
  from A have a: "length ([30, 1 / 2, 30] @ [p_vx (ep_car ex_start)]) = 4"
    by simp
  from A [THEN conjunct2, THEN mp, OF eq]
  have b: "episode_body max_number_of_steps ex_lidar ex_map ex_model ex_choice ex_start
       = episode_body max_number_of_steps ex_lidar ex_map ?model' ex_choice ex_start" .
  from B ml have c: "sd_state (last (experiences ?st1)) = [30, 1 / 2, 30]
        \<and> ex_model ([30, 1 / 2, 30] @ [p_vx (ep_car ex_start)])
            = Inr (sd_output (last (experiences ?st1)))"
    by simp
  from C have d: "length (sensor_angles_std ex_lidar) = 3"
    by simp
  from D D' have e: "sensor_num l15 = 15 \<and> length (sensor_angles_std l15) + 1 = 16"
    by simp
  have c': "\<exists>st' distances.
          episode_body max_number_of_steps ex_lidar ex_map ex_model ex_choice ex_start
            = Inr (True, st')
        \<and> sd_state (last (experiences st')) = distances
        \<and> ex_model (distances @ [p_vx (ep_car ex_start)])
            = Inr (sd_output (last (experiences st')))"
  proof (intro exI conjI)
    show "episode_body max_number_of_steps ex_lidar ex_map ex_model ex_choice ex_start
            = Inr (True, ?st1)"
      by (rule ex_body)
    show "sd_state (last (experiences ?st1)) = [30, 1 / 2, 30]"
      by (rule c [THEN conjunct1])
    show "ex_model ([30, 1 / 2, 30] @ [p_vx (ep_car ex_start)])
            = Inr (sd_output (last (experiences ?st1)))"
      by (rule c [THEN conjunct2])
  qed
  from l15 e have e': "\<exists>lidar. LiDAR_init 180 15 30 (1 / 10) = Inr lidar \<and> sensor_num lidar = 15
        \<and> length (sensor_angles_std lidar) + 1 = 16"
    by blast
  from ml a b c' lidar3 d e' show ?thesis
    by (intro conjI)
qed

section \<open>Properties of the trainer\<close>

lemma nansum_padded: "nansum (padded n vs) = sum_list vs"
  by (simp add: nansum_def padded_def comp_def sum_list_replicate)

lemma map2_map_same: "map2 f (map g xs) (map h xs) = map (\<lambda>x. f (g x) (h x)) xs"
  by (induction xs) simp_all

lemma map_option_padded: "map (map_option f) (padded n vs) = padded n (map f vs)"
  by (simp add: padded_def comp_def)

lemma nan_sub_padded: "map (\<lambda>r. nan_sub r (Some b)) (padded n vs) = padded n (map (\<lambda>v. v - b) vs)"
  by (simp add: padded_def comp_def)

lemma nan_mul_padded:
  "map2 nan_mul (padded n (map f lg)) (padded n (map g lg)) = padded n (map (\<lambda>e. f e * g e) lg)"
  by (simp add: padded_def comp_def
        map2_map_same [of nan_mul "\<lambda>e. Some (f e)" lg "\<lambda>e. Some (g e)"])

lemma reward_ave_padded:
  "reward_ave (map (\<lambda>lg. padded n (map sd_reward lg)) logs) (map length logs)
   = baseline_of_logs logs"
  by (simp add: reward_ave_def baseline_of_logs_def map2_map_same nansum_padded)

lemma advantage_padded:
  assumes "baseline_of_logs logs = Some b"
  shows "advantage (map (\<lambda>lg. padded n (map sd_reward lg)) logs) (map length logs)
   = map (\<lambda>lg. padded n (map (\<lambda>e. sd_reward e - b) lg)) logs"
  unfolding advantage_def reward_ave_padded assms
  by (simp add: nan_sub_padded comp_def)

lemma clampped_padded:
  "map (map (map_option ln)) (clampped (map (\<lambda>lg. padded n (map taken_prob lg)) logs))
   = map (\<lambda>lg. padded n (map (\<lambda>e. ln (clamp (1 / 10 ^ 10) 1 (taken_prob e))) lg)) logs"
  by (simp add: clampped_def map_option_padded comp_def)

lemma Jmt_padded:
  assumes "baseline_of_logs logs = Some b"
  shows "Jmt (map (\<lambda>lg. padded n (map sd_reward lg)) logs)
             (map (\<lambda>lg. padded n (map taken_prob lg)) logs) (map length logs)
   = map (\<lambda>lg. padded n (map (\<lambda>e. ln (clamp (1 / 10 ^ 10) 1 (taken_prob e)) * (sd_reward e - b)) lg)) logs"
  unfolding Jmt_def advantage_padded [OF assms] clampped_padded
  by (simp add: map2_map_same nan_mul_padded)

lemma update_policy_padded:
  "update_policy (map (\<lambda>lg. padded n (map sd_reward lg)) logs)
             (map (\<lambda>lg. padded n (map taken_prob lg)) logs) (map length logs)
   = objective_of_logs logs"
proof (cases "baseline_of_logs logs")
  case None
  then have "logs = []"
    by (simp add: baseline_of_logs_def mean_def split: if_splits)
  then show ?thesis
    by (simp add: update_policy_def Jmt_def clampped_def advantage_def objective_of_logs_def
          baseline_of_logs_def mean_def)
next
  case (Some b)
  show ?thesis
    unfolding update_policy_def Jmt_padded [OF Some]
    by (simp add: objective_of_logs_def Some map2_map_same nansum_padded)
qed

lemma padded_marker_ex:
  assumes "i < n"
  shows "(\<exists>y. padded n vs ! i = Some y) = (i < length vs)"
  using padded_marker [OF assms, of vs] by simp

lemma batch_rows:
  assumes "\<forall>r\<in>set batch. \<exists>c lidar m model choice. episode c lidar m model choice = Inr r"
  shows "map (\<lambda>(exps, pis, rews, step). rews) batch
           = map (\<lambda>lg. padded max_number_of_steps (map sd_reward lg))
               (map (\<lambda>(exps, pis, rews, step). exps) batch)"
    and "map (\<lambda>(exps, pis, rews, step). pis) batch
           = map (\<lambda>lg. padded max_number_of_steps (map taken_prob lg))
               (map (\<lambda>(exps, pis, rews, step). exps) batch)"
    and "map (\<lambda>(exps, pis, rews, step). step) batch
           = map length (map (\<lambda>(exps, pis, rews, step). exps) batch)"
proof -
  have row: "pis = padded max_number_of_steps (map taken_prob exps)
      \<and> rews = padded max_number_of_steps (map sd_reward exps) \<and> step = length exps"
    if "(exps, pis, rews, step) \<in> set batch" for exps pis rews step
  proof -
    from assms that obtain c lidar m model choice where
      "episode c lidar m model choice = Inr (exps, pis, rews, step)"
      by blast
    from episode_Inr_layout [OF this] show ?thesis by simp
  qed
  show "map (\<lambda>(exps, pis, rews, step). rews) batch
           = map (\<lambda>lg. padded max_number_of_steps (map sd_reward lg))
               (map (\<lambda>(exps, pis, rews, step). exps) batch)"
    unfolding map_map by (rule map_cong) (use row in auto)
  show "map (\<lambda>(exps, pis, rews, step). pis) batch
           = map (\<lambda>lg. padded max_number_of_steps (map taken_prob lg))
               (map (\<lambda>(exps, pis, rews, step). exps) batch)"
    unfolding map_map by (rule map_cong) (use row in auto)
  show "map (\<lambda>(exps, pis, rews, step). step) batch
           = map length (map (\<lambda>(exps, pis, rews, step). exps) batch)"
    unfolding map_map by (rule map_cong) (use row in auto)
qed

text \<open>
  C8. For a batch made of returned episodes: in every episode the returned length is the
  length of the step log and lies between 1 and \<open>max_number_of_steps\<close>; both padded rows
  have length \<open>max_number_of_steps\<close>; an entry is not the marker exactly when its index is
  below the returned length, and it then holds the recorded reward, respectively the
  probability of the action taken; \<open>nansum\<close> of the reward row is the sum of the recorded
  rewards. The baseline and the objective that \<open>update_policy\<close> computes from the padded
  batch are the ones computed from the step logs alone, so no marker enters a sum or a mean.
\<close>

theorem padded_rows_markers_after_length:
  assumes "\<forall>r\<in>set batch. \<exists>c lidar m model choice. episode c lidar m model choice = Inr r"
  shows "(\<forall>(exps, pis, rews, step)\<in>set batch.
            step = length exps \<and> 0 < step \<and> step \<le> max_number_of_steps
          \<and> length pis = max_number_of_steps \<and> length rews = max_number_of_steps
          \<and> (\<forall>i<max_number_of_steps. (rews ! i \<noteq> None) = (i < step))
          \<and> (\<forall>i<max_number_of_steps. (pis ! i \<noteq> None) = (i < step))
          \<and> (\<forall>i<step. rews ! i = Some (sd_reward (exps ! i))
                      \<and> pis ! i = Some (taken_prob (exps ! i)))
          \<and> nansum rews = sum_list (map sd_reward exps))
     \<and> reward_ave (map (\<lambda>(exps, pis, rews, step). rews) batch)
                   (map (\<lambda>(exps, pis, rews, step). step) batch)
         = baseline_of_logs (map (\<lambda>(exps, pis, rews, step). exps) batch)
     \<and> update_policy (map (\<lambda>(exps, pis, rews, step). rews) batch)
                      (map (\<lambda>(exps, pis, rews, step). pis) batch)
                      (map (\<lambda>(exps, pis, rews, step). step) batch)
         = objective_of_logs (map (\<lambda>(exps, pis, rews, step). exps) batch)"
proof (intro conjI)
  show "\<forall>(exps, pis, rews, step)\<in>set batch.
            step = length exps \<and> 0 < step \<and> step \<le> max_number_of_steps
          \<and> length pis = max_number_of_steps \<and> length rews = max_number_of_steps
          \<and> (\<forall>i<max_number_of_steps. (rews ! i \<noteq> None) = (i < step))
          \<and> (\<forall>i<max_number_of_steps. (pis ! i \<noteq> None) = (i < step))
          \<and> (\<forall>i<step. rews ! i = Some (sd_reward (exps ! i))
                      \<and> pis ! i = Some (taken_prob (exps ! i)))
          \<and> nansum rews = sum_list (map sd_reward exps)"
  proof (intro ballI, clarify)
    fix exps pis rews step
    assume "(exps, pis, rews, step) \<in> set batch"
    with assms obtain c lidar m model choice where
      "episode c lidar m model choice = Inr (exps, pis, rews, step)"
      by blast
    from episode_Inr_layout [OF this] have
      s: "step = length exps" and p: "pis = padded max_number_of_steps (map taken_prob exps)"
      and r: "rews = padded max_number_of_steps (map sd_reward exps)"
      and ne: "exps \<noteq> []" and le: "length exps \<le> max_number_of_steps"
      by simp_all
    show "step = length exps \<and> 0 < step \<and> step \<le> max_number_of_steps
          \<and> length pis = max_number_of_steps \<and> length rews = max_number_of_steps
          \<and> (\<forall>i<max_number_of_steps. (rews ! i \<noteq> None) = (i < step))
          \<and> (\<forall>i<max_number_of_steps. (pis ! i \<noteq> None) = (i < step))
          \<and> (\<forall>i<step. rews ! i = Some (sd_reward (exps ! i))
                      \<and> pis ! i = Some (taken_prob (exps ! i)))
          \<and> nansum rews = sum_list (map sd_reward exps)"
      unfolding s p r using ne le
      by (simp add: length_padded padded_marker_ex padded_nth nansum_padded max_absorb1)
  qed
next
  show "reward_ave (map (\<lambda>(exps, pis, rews, step). rews) batch)
                   (map (\<lambda>(exps, pis, rews, step). step) batch)
         = baseline_of_logs (map (\<lambda>(exps, pis, rews, step). exps) batch)"
    unfolding batch_rows [OF assms] by (rule reward_ave_padded)
next
  show "update_policy (map (\<lambda>(exps, pis, rews, step). rews) batch)
                      (map (\<lambda>(exps, pis, rews, step). pis) batch)
                      (map (\<lambda>(exps, pis, rews, step). step) batch)
         = objective_of_logs (map (\<lambda>(exps, pis, rews, step). exps) batch)"
    unfolding batch_rows [OF assms] by (rule update_policy_padded)
qed

theorem padded_rows_markers_after_length_witness:
  "episode ex_car ex_lidar ex_map ex_model ex_choice
     = Inr ([ex_step], (replicate max_number_of_steps None)[0 := Some (taken_prob ex_step)],
            (replicate max_number_of_steps None)[0 := Some 0], 1)
   \<and> length ((replicate max_number_of_steps None)[0 := Some (0 :: real)]) = max_number_of_steps
   \<and> nansum ((replicate max_number_of_steps None)[0 := Some 0])
       = sum_list (map sd_reward [ex_step])
   \<and> reward_ave [(replicate max_number_of_steps None)[0 := Some 0]] [1]
       = baseline_of_logs [[ex_step]]
   \<and> update_policy [(replicate max_number_of_steps None)[0 := Some 0]]
        [(replicate max_number_of_steps None)[0 := Some (taken_prob ex_step)]] [1]
       = objective_of_logs [[ex_step]]"
proof -
  let ?P = "(replicate max_number_of_steps None)[0 := Some (taken_prob ex_step)]"
  let ?R = "(replicate max_number_of_steps None)[0 := Some (0 :: real)]"
  let ?batch = "[([ex_step], ?P, ?R, 1 :: nat)]"
  have h: "\<forall>r\<in>set ?batch. \<exists>c lidar m model choice. episode c lidar m model choice = Inr r"
  proof (intro ballI)
    fix r assume "r \<in> set ?batch"
    then have "episode ex_car ex_lidar ex_map ex_model ex_choice = Inr r"
      using ex_episode by simp
    then show "\<exists>c lidar m model choice. episode c lidar m model choice = Inr r"
      by blast
  qed
  note t = padded_rows_markers_after_length [OF h]
  from t [THEN conjunct1] have a: "length ?R = max_number_of_steps"
    and b: "nansum ?R = sum_list (map sd_reward [ex_step])"
    by simp_all
  from t [THEN conjunct2, THEN conjunct1]
  have c: "reward_ave [?R] [1] = baseline_of_logs [[ex_step]]"
    by simp
  from t [THEN conjunct2, THEN conjunct2]
  have d: "update_policy [?R] [?P] [1] = objective_of_logs [[ex_step]]"
    by simp
  from ex_episode a b c d show ?thesis
    by (intro conjI)
qed

section \<open>Properties of the trainer in float32 arithmetic\<close>

lemma rne_of_int: "rne (of_int n) = n"
  by (simp add: rne_def)





lemma powr_powi: "(2::real) powr real_of_int e = 2 powi e"
  by (simp add: powr_int power_int_def inverse_eq_divide power_divide)

lemma floor_log2_powi:
  assumes "2 powi e \<le> a" "a < 2 powi (e + 1)"
  shows "\<lfloor>log 2 a\<rfloor> = e"
proof -
  have "0 < (2::real) powi e" by simp
  with assms have pos: "0 < a" by linarith
  have "2 powr real_of_int e \<le> a \<and> a < 2 powr (real_of_int e + 1)"
    using assms powr_powi [of e] powr_powi [of "e + 1"] by simp
  with floor_log_eq_powr_iff [of a 2 e] pos show ?thesis by simp
qed


lemma floor_log2_bounds:
  assumes "0 < a"
  shows "2 powi \<lfloor>log 2 a\<rfloor> \<le> a" "a < 2 powi (\<lfloor>log 2 a\<rfloor> + 1)"
proof -
  from floor_log_eq_powr_iff [of a 2 "\<lfloor>log 2 a\<rfloor>"] assms
  have "2 powr real_of_int \<lfloor>log 2 a\<rfloor> \<le> a \<and> a < 2 powr (real_of_int \<lfloor>log 2 a\<rfloor> + 1)"
    by simp
  then show "2 powi \<lfloor>log 2 a\<rfloor> \<le> a" "a < 2 powi (\<lfloor>log 2 a\<rfloor> + 1)"
    using powr_powi [of "\<lfloor>log 2 a\<rfloor>"] powr_powi [of "\<lfloor>log 2 a\<rfloor> + 1"] by simp_all
qed

lemma expo32_normal:
  assumes "2 powi e \<le> \<bar>x\<bar>" "\<bar>x\<bar> < 2 powi (e + 1)" "- 126 \<le> e"
  shows "expo32 x = e"
  using floor_log2_powi [OF assms(1,2)] assms(3) by (simp add: expo32_def)





lemma rnd32_normal:
  assumes "2 powi e \<le> \<bar>x\<bar>" "\<bar>x\<bar> < 2 powi (e + 1)" "- 126 \<le> e"
  shows "rnd32 x = of_int (rne (x / 2 powi (e - 23))) * 2 powi (e - 23)"
proof -
  have "0 < (2::real) powi e" by simp
  with assms(1) have "0 < \<bar>x\<bar>" by linarith
  then have "x \<noteq> 0" by simp
  then show ?thesis
    by (simp add: rnd32_def expo32_normal [OF assms] Let_def)
qed











lemma fl32_0: "fl32 0 = Num 0"
  by (simp add: fl32_def rnd32_def)










lemma fl32_nat:
  assumes "k < 2 ^ 24"
  shows "fl32 (real k) = Num (real k)"
proof (cases "k = 0")
  case True
  then show ?thesis by (simp add: fl32_0)
next
  case False
  define L where "L = \<lfloor>log 2 (real k)\<rfloor>"
  from False have pos: "0 < real k" by simp
  note b = floor_log2_bounds [OF pos, folded L_def]
  have one: "1 \<le> real k" using False by simp
  have L0: "0 \<le> L"
  proof (rule ccontr)
    assume "\<not> 0 \<le> L"
    then have "L + 1 \<le> 0" by simp
    then have "(2::real) powi (L + 1) \<le> 2 powi 0"
      by (intro power_int_increasing) simp_all
    with b(2) one show False by simp
  qed
  have L23: "L \<le> 23"
  proof (rule ccontr)
    assume "\<not> L \<le> 23"
    then have "24 \<le> L" by simp
    then have "(2::real) powi 24 \<le> 2 powi L"
      by (intro power_int_increasing) simp_all
    moreover have "real k < 2 ^ 24" using assms by (simp flip: of_nat_less_iff)
    ultimately show False using b(1) by simp
  qed
  define j where "j = nat (23 - L)"
  have Lj: "L - 23 = - int j" using L23 by (simp add: j_def)
  have pj: "(2::real) powi (L - 23) = 1 / 2 ^ j"
    by (simp add: Lj power_int_minus inverse_eq_divide)
  have "\<bar>real k\<bar> = real k" by simp
  with b have "2 powi L \<le> \<bar>real k\<bar>" "\<bar>real k\<bar> < 2 powi (L + 1)" by simp_all
  moreover have "- 126 \<le> L" using L0 by simp
  ultimately have "rnd32 (real k) = of_int (rne (real k / 2 powi (L - 23))) * 2 powi (L - 23)"
    by (rule rnd32_normal)
  moreover have "real k / 2 powi (L - 23) = of_int (int k * 2 ^ j)"
    by (simp add: pj)
  then have "rne (real k / 2 powi (L - 23)) = int k * 2 ^ j"
    by (simp only: rne_of_int)
  ultimately have "rnd32 (real k) = of_int (int k * 2 ^ j) * 2 powi (L - 23)"
    by (simp only:)
  then have r: "rnd32 (real k) = real k"
    by (simp add: pj)
  have "real k < 2 ^ 128"
  proof -
    have "real k < 2 ^ 24" using assms by (simp flip: of_nat_less_iff)
    also have "(2::real) ^ 24 < 2 ^ 128" by simp
    finally show ?thesis .
  qed
  with r show ?thesis
    by (simp add: fl32_def Let_def)
qed

















lemma fl32_normal:
  assumes "2 powi e \<le> \<bar>x\<bar>" "\<bar>x\<bar> < 2 powi (e + 1)" "- 126 \<le> e"
    and "rne (x / 2 powi (e - 23)) = n" and "\<bar>of_int n * (2::real) powi (e - 23)\<bar> < 2 ^ 128"
  shows "fl32 x = Num (of_int n * 2 powi (e - 23))"
  using assms(4,5) by (simp add: fl32_def Let_def rnd32_normal [OF assms(1-3)])

lemma clamp_lo32_is_float: "fl32 (1 / 10 ^ 10) = Num clamp_lo32"
  using fl32_normal [of "- 34" "1 / 10 ^ 10" 14411519] by (simp add: rne_def clamp_lo32_def)

lemma fl32_small_counts: "fl32 1 = Num 1" "fl32 3 = Num 3" "fl32 6 = Num 6"
  using fl32_nat [of 1] fl32_nat [of 3] fl32_nat [of 6] by simp_all




lemma f32_06:
  "fl32 (6 / 10) = Num (5033165 / 8388608)"
  "fl32 (5033165 / 8388608) = Num (5033165 / 8388608)"
  "fl32 (5033165 / 4194304) = Num (5033165 / 4194304)"
  "fl32 (15099495 / 8388608) = Num (15099495 / 8388608)"
  "fl32 (5033165 / 2097152) = Num (5033165 / 2097152)"
  "fl32 (25165825 / 8388608) = Num 3"
  "fl32 (30198989 / 8388608) = Num (7549747 / 2097152)"
  "fl32 (7549747 / 2097152) = Num (7549747 / 2097152)"
  "fl32 (7549747 / 12582912) = Num (10066329 / 16777216)"
  "fl32 (10066329 / 16777216) = Num (10066329 / 16777216)"
  using fl32_normal [of "- 1" "6 / 10" 10066330]
    fl32_normal [of "- 1" "5033165 / 8388608" 10066330]
    fl32_normal [of 0 "5033165 / 4194304" 10066330]
    fl32_normal [of 0 "15099495 / 8388608" 15099495]
    fl32_normal [of 1 "5033165 / 2097152" 10066330]
    fl32_normal [of 1 "25165825 / 8388608" 12582912]
    fl32_normal [of 1 "30198989 / 8388608" 15099494]
    fl32_normal [of 1 "7549747 / 2097152" 15099494]
    fl32_normal [of "- 1" "7549747 / 12582912" 10066329]
    fl32_normal [of "- 1" "10066329 / 16777216" 10066329]
  by (simp_all add: rne_def)

text \<open>
  The baseline of one episode of six steps with reward 0.6 as a float32 number
  (5033165 / 8388608), added from left to right: 10066329 / 16777216, one unit in the
  last place below the reward.
\<close>

lemma reward_ave32_06:
  "reward_ave32 [[Num (5033165 / 8388608), Num (5033165 / 8388608), Num (5033165 / 8388608),
                  Num (5033165 / 8388608), Num (5033165 / 8388608), Num (5033165 / 8388608),
                  NaN, NaN]] [6]
   = Num (10066329 / 16777216)"
  by (simp add: reward_ave32_def mean32_def nansum32_def sum32_def f32_06 fl32_small_counts)



end
